theory Spec2Isabelle
  imports Main "HOL-Library.Word" "HOL-Library.Sublist"
begin

section \<open>Protocol values\<close>

text \<open>
  \<^verbatim>\<open>page.go\<close> reads every protocol answer through \<^verbatim>\<open>kit.JSONResult\<close>, a pointer to a
  \<^verbatim>\<open>gjson.Result\<close>. That library is not part of the repository, so its accessors are
  modelled here by what the source relies on: a result is either absent (\<open>None\<close>, the
  result of a path that matches nothing) or a JSON value. Numbers are integers, which is
  what the protocol sends for context identifiers and status codes.
\<close>

datatype json =
    JNull
  | JFalse
  | JTrue
  | JNumber int
  | JString string
  | JArray "json list"
  | JObject "(string \<times> json) list"

type_synonym JSONResult = "json option"

text \<open>A \<^verbatim>\<open>cdp.Object\<close> is a Go \<^verbatim>\<open>map[string]interface{}\<close>.\<close>

type_synonym Object = "string \<rightharpoonup> json"

fun split_path :: "string \<Rightarrow> string \<Rightarrow> string list" where
  "split_path acc [] = [rev acc]"
| "split_path acc (c # cs) =
     (if c = CHR ''.'' then rev acc # split_path [] cs else split_path (c # acc) cs)"

fun get_keys :: "string list \<Rightarrow> json \<Rightarrow> JSONResult" where
  "get_keys [] j = Some j"
| "get_keys (k # ks) (JObject kvs) =
     (case map_of kvs k of None \<Rightarrow> None | Some v \<Rightarrow> get_keys ks v)"
| "get_keys (k # ks) _ = None"

text \<open>\<^verbatim>\<open>res.Get(path)\<close> for the dotted paths of plain keys that the source uses.\<close>

definition Get :: "string \<Rightarrow> JSONResult \<Rightarrow> JSONResult" where
  "Get path r = (case r of None \<Rightarrow> None | Some j \<Rightarrow> get_keys (split_path [] path) j)"

definition Exists :: "JSONResult \<Rightarrow> bool" where
  "Exists r = (r \<noteq> None)"

definition digit_char :: "nat \<Rightarrow> char" where
  "digit_char d = char_of (48 + d)"

fun show_nat :: "nat \<Rightarrow> string" where
  "show_nat n = (if n < 10 then [digit_char n] else show_nat (n div 10) @ [digit_char (n mod 10)])"

definition show_int :: "int \<Rightarrow> string" where
  "show_int i = (if i < 0 then CHR ''-'' # show_nat (nat (- i)) else show_nat (nat i))"

fun escape :: "string \<Rightarrow> string" where
  "escape [] = []"
| "escape (c # cs) =
     (if c = CHR 0x22 \<or> c = CHR 0x5C then CHR 0x5C # c # escape cs else c # escape cs)"

definition quote :: "string \<Rightarrow> string" where
  "quote s = CHR 0x22 # escape s @ [CHR 0x22]"

fun commas :: "string list \<Rightarrow> string" where
  "commas [] = []"
| "commas [x] = x"
| "commas (x # y # zs) = x @ '','' @ commas (y # zs)"

text \<open>\<^verbatim>\<open>Raw\<close>, the JSON text of a value, printed without white space.\<close>

fun raw :: "json \<Rightarrow> string" where
  "raw JNull = ''null''"
| "raw JFalse = ''false''"
| "raw JTrue = ''true''"
| "raw (JNumber n) = show_int n"
| "raw (JString s) = quote s"
| "raw (JArray xs) = ''['' @ commas (map raw xs) @ '']''"
| "raw (JObject kvs) =
     ''{'' @ commas (map (\<lambda>kv. quote (fst kv) @ '':'' @ raw (snd kv)) kvs) @ ''}''"

definition Raw :: "JSONResult \<Rightarrow> string" where
  "Raw r = (case r of None \<Rightarrow> [] | Some j \<Rightarrow> raw j)"

text \<open>\<^verbatim>\<open>String()\<close>: the text of a string, the literal of a number or boolean, the raw
  text of an array or object, and the empty string for null and for an absent result.\<close>

definition String :: "JSONResult \<Rightarrow> string" where
  "String r =
     (case r of
        None \<Rightarrow> []
      | Some JNull \<Rightarrow> []
      | Some JFalse \<Rightarrow> ''false''
      | Some JTrue \<Rightarrow> ''true''
      | Some (JNumber n) \<Rightarrow> show_int n
      | Some (JString s) \<Rightarrow> s
      | Some j \<Rightarrow> raw j)"

fun parse_digits :: "string \<Rightarrow> int \<Rightarrow> int option" where
  "parse_digits [] n = Some n"
| "parse_digits (c # cs) n =
     (if 48 \<le> (of_char c :: nat) \<and> (of_char c :: nat) \<le> 57
      then parse_digits cs (n * 10 + (int (of_char c) - 48)) else None)"

definition parseInt :: "string \<Rightarrow> int" where
  "parseInt s =
     (case s of
        [] \<Rightarrow> 0
      | c # cs \<Rightarrow>
          if c = CHR ''-''
          then (if cs = [] then 0 else case parse_digits cs 0 of None \<Rightarrow> 0 | Some n \<Rightarrow> - n)
          else (case parse_digits s 0 of None \<Rightarrow> 0 | Some n \<Rightarrow> n))"

text \<open>\<^verbatim>\<open>Int()\<close>: the number, 1 for true, a string read as a decimal, 0 otherwise.\<close>

definition Int_json :: "JSONResult \<Rightarrow> int" where
  "Int_json r =
     (case r of
        Some (JNumber n) \<Rightarrow> n
      | Some JTrue \<Rightarrow> 1
      | Some (JString s) \<Rightarrow> parseInt s
      | _ \<Rightarrow> 0)"

text \<open>\<^verbatim>\<open>Array()\<close>: the members of an array, nothing for null or an absent result, and
  the value alone for anything else.\<close>

definition Array :: "JSONResult \<Rightarrow> JSONResult list" where
  "Array r =
     (case r of
        None \<Rightarrow> []
      | Some JNull \<Rightarrow> []
      | Some (JArray xs) \<Rightarrow> map Some xs
      | Some j \<Rightarrow> [Some j])"

text \<open>\<^verbatim>\<open>Map()\<close>: the members of an object, nothing for any other value.\<close>

definition Map :: "JSONResult \<Rightarrow> (string \<times> JSONResult) list" where
  "Map r = (case r of Some (JObject kvs) \<Rightarrow> map (\<lambda>kv. (fst kv, Some (snd kv))) kvs | _ \<Rightarrow> [])"

section \<open>Errors, contexts and pages\<close>

text \<open>
  \<^verbatim>\<open>Details\<close> of a rod \<^verbatim>\<open>Error\<close> is an \<^verbatim>\<open>interface{}\<close>; the source stores either a raw
  JSON text or a result there.
\<close>

datatype Details = DString string | DResult JSONResult

text \<open>
  Go errors: a \<^verbatim>\<open>*cdp.Error\<close> with its numeric code, rod's own \<^verbatim>\<open>*Error{Err, Code,
  Details}\<close>, and any other error value (a cancelled or expired context, a network
  failure).
\<close>

datatype error =
    CdpError int string
  | GoError string
  | Error "error option" string Details

text \<open>A \<^verbatim>\<open>context.Context\<close>: one handed in from outside, or one derived by
  \<^verbatim>\<open>context.WithTimeout\<close> from its parent and a duration in nanoseconds.\<close>

datatype Context = Background nat | WithTimeout Context int

datatype CancelFunc = CancelOf Context

record Browser =
  Viewport :: "Object option"

record Page =
  ctx :: Context
  browser :: Browser
  TargetID :: string
  SessionID :: string
  ContextID :: int
  Mouse :: "nat option"
  Keyboard :: "nat option"
  FrameID :: string
  element :: "nat option"
  timeoutCancel :: "CancelFunc option"
  getDownloadFileLock :: "nat option"

record Element =
  page_el :: Page
  ctx_el :: Context
  ObjectID :: string

record Message =
  SessionID_msg :: string
  Method :: string
  Params :: "Object option"

type_synonym byte = "8 word"

record Request =
  url :: string
  headers :: "string \<rightharpoonup> string"

record Response =
  StatusCode :: int
  Header :: "(string \<times> string list) list"

section \<open>Collaborators\<close>

text \<open>
  Everything \<^verbatim>\<open>page.go\<close> calls but does not define is a field of the environment, acting
  on a world \<open>'w\<close> of its own: the browser's transport (\<^verbatim>\<open>Browser.Ctx(ctx).Call\<close>) and
  event wait (\<^verbatim>\<open>Browser.Ctx(ctx).WaitEventE\<close>), the sleepers of \<^verbatim>\<open>kit\<close>, the HTTP client
  of \<^verbatim>\<open>kit.Req\<close>, base64, and the helpers and error codes of the package that live in
  other files. A call answers with an error or with a result, as the source reads it:
  every caller tests \<^verbatim>\<open>err\<close> before it touches \<^verbatim>\<open>res\<close>.
\<close>

type_synonym 'w Sleeper = "Context \<Rightarrow> 'w \<Rightarrow> error option \<times> 'w"

record 'w Env =
  BrowserCall :: "Context \<Rightarrow> Message \<Rightarrow> 'w \<Rightarrow> (error + JSONResult) \<times> 'w"
  WaitEventE :: "Context \<Rightarrow> string \<Rightarrow> 'w \<Rightarrow> (error + JSONResult) \<times> 'w"
  BackoffSleeper :: "int \<Rightarrow> int \<Rightarrow> (int \<Rightarrow> int) option \<Rightarrow> 'w Sleeper"
  MergeSleepers :: "'w Sleeper list \<Rightarrow> 'w Sleeper"
  WaitFiltered :: "(Message \<Rightarrow> bool) \<Rightarrow> 'w Sleeper"
  ReqResponse :: "Request \<Rightarrow> 'w \<Rightarrow> (error + Response) \<times> 'w"
  ReqBytes :: "Request \<Rightarrow> 'w \<Rightarrow> (error + byte list) \<times> 'w"
  EncodeToString :: "byte list \<Rightarrow> string"
  SprintFnApply :: "string \<Rightarrow> json list \<Rightarrow> string"
  SprintFnThis :: "string \<Rightarrow> string"
  ErrExpectElement :: string
  ErrExpectElements :: string

text \<open>The state of a run: the collaborators' world, the messages handed to the
  transport so far (oldest first), and the errors published on \<^verbatim>\<open>browser.fatal\<close>.\<close>

record 'w State =
  world :: 'w
  calls :: "Message list"
  fatal :: "error list"

definition Millisecond :: int where
  "Millisecond = 1000000"

definition Second :: int where
  "Second = 1000000000"

definition JBool :: "bool \<Rightarrow> json" where
  "JBool b = (if b then JTrue else JFalse)"

definition sleep :: "'w Sleeper \<Rightarrow> Context \<Rightarrow> 'w State \<Rightarrow> error option \<times> 'w State" where
  "sleep sl c s = (case sl c (world s) of (e, w) \<Rightarrow> (e, s\<lparr>world := w\<rparr>))"

text \<open>
  Modelled from the spec: \<^verbatim>\<open>kit.Retry(ctx, sleeper, fn)\<close>, which belongs to an external
  library. The operation is repeated until it reports done or an error, with the sleeper
  between two attempts; an error of the sleeper ends the loop. Every closure that
  \<^verbatim>\<open>page.go\<close> hands to it reports done whenever it reports an error. \<open>'v\<close> holds the
  variables the closure captures and assigns. A loop that never ends is \<open>None\<close>.
\<close>

partial_function (option) Retry ::
  "Context \<Rightarrow> (Context \<Rightarrow> 's \<Rightarrow> error option \<times> 's) \<Rightarrow>
   ('v \<Rightarrow> 's \<Rightarrow> ((bool \<times> error option) \<times> 'v \<times> 's) option) \<Rightarrow>
   'v \<Rightarrow> 's \<Rightarrow> (error option \<times> 'v \<times> 's) option"
where
  "Retry c sleeper fn v s =
     (case fn v s of
        None \<Rightarrow> None
      | Some ((stop, err), v', s') \<Rightarrow>
          if stop \<or> err \<noteq> None then Some (err, v', s')
          else (case sleeper c s' of
                  (Some e, s'') \<Rightarrow> Some (Some e, v', s'')
                | (None, s'') \<Rightarrow> Retry c sleeper fn v' s''))"

section \<open>The page\<close>

text \<open>\<^verbatim>\<open>Call\<close> sends one message with the page's session and context.\<close>

definition Call ::
  "'w Env \<Rightarrow> Page \<Rightarrow> string \<Rightarrow> Object option \<Rightarrow> 'w State \<Rightarrow> (error + JSONResult) \<times> 'w State"
where
  "Call env p method params s =
     (let m = \<lparr>SessionID_msg = SessionID p, Method = method, Params = params\<rparr>
      in case BrowserCall env (ctx p) m (world s) of
           (r, w) \<Rightarrow> (r, s\<lparr>world := w, calls := calls s @ [m]\<rparr>))"

definition isIframe :: "Page \<Rightarrow> bool" where
  "isIframe p = (FrameID p \<noteq> [])"

definition SetViewportE ::
  "'w Env \<Rightarrow> Page \<Rightarrow> Object option \<Rightarrow> 'w State \<Rightarrow> error option \<times> 'w State"
where
  "SetViewportE env p params s =
     (case params of
        None \<Rightarrow> (None, s)
      | Some ps \<Rightarrow>
          (case Call env p ''Emulation.setDeviceMetricsOverride'' (Some ps) s of
             (Inl err, s') \<Rightarrow> (Some err, s')
           | (Inr _, s') \<Rightarrow> (None, s')))"

text \<open>The functions below assign fields of \<^verbatim>\<open>*p\<close>; they return the page as they leave it.\<close>

definition initIsolatedWorld ::
  "'w Env \<Rightarrow> Page \<Rightarrow> 'w State \<Rightarrow> error option \<times> Page \<times> 'w State"
where
  "initIsolatedWorld env p s =
     (case Call env p ''Page.createIsolatedWorld'' (Some [''frameId'' \<mapsto> JString (FrameID p)]) s of
        (Inl err, s') \<Rightarrow> (Some err, p, s')
      | (Inr frame, s') \<Rightarrow>
          (None, p\<lparr>ContextID := Int_json (Get ''executionContextId'' frame)\<rparr>, s'))"

definition initSession ::
  "'w Env \<Rightarrow> Page \<Rightarrow> 'w State \<Rightarrow> error option \<times> Page \<times> 'w State"
where
  "initSession env p s =
     (case Call env p ''Target.attachToTarget''
             (Some [''targetId'' \<mapsto> JString (TargetID p), ''flatten'' \<mapsto> JTrue]) s of
        (Inl err, s1) \<Rightarrow> (Some err, p, s1)
      | (Inr obj, s1) \<Rightarrow>
          (let p1 = p\<lparr>SessionID := String (Get ''sessionId'' obj)\<rparr>
           in case Call env p1 ''Page.enable'' None s1 of
                (Inl err, s2) \<Rightarrow> (Some err, p1, s2)
              | (Inr _, s2) \<Rightarrow>
                  (case SetViewportE env p1 (Viewport (browser p1)) s2 of
                     (e, s3) \<Rightarrow> (e, p1, s3))))"

text \<open>
  The closure of \<^verbatim>\<open>evalIframe\<close>. It captures \<^verbatim>\<open>params\<close>, the named results \<^verbatim>\<open>res\<close> and
  \<^verbatim>\<open>err\<close> (here one value \<open>r\<close>) and \<^verbatim>\<open>p\<close>. The assignment to \<^verbatim>\<open>params["contextId"]\<close>
  overwrites the same key in every round.
\<close>

definition evalIframe_fn ::
  "'w Env \<Rightarrow> Object \<Rightarrow> (error + JSONResult) \<times> Page \<Rightarrow> 'w State \<Rightarrow>
   ((bool \<times> error option) \<times> ((error + JSONResult) \<times> Page) \<times> 'w State) option"
where
  "evalIframe_fn env params v s =
     (case v of (r0, p) \<Rightarrow>
        (case Call env p ''Runtime.evaluate''
                (Some (params(''contextId'' \<mapsto> JNumber (ContextID p)))) s of
           (r, s1) \<Rightarrow>
             (case r of
                Inl (CdpError code msg) \<Rightarrow>
                  if code = - 32000
                  then (case initIsolatedWorld env p s1 of
                          (_, p', s2) \<Rightarrow> Some ((False, None), (r, p'), s2))
                  else Some ((True, Some (CdpError code msg)), (r, p), s1)
              | Inl err \<Rightarrow> Some ((True, Some err), (r, p), s1)
              | Inr res \<Rightarrow> Some ((True, None), (r, p), s1))))"

definition evalIframe ::
  "'w Env \<Rightarrow> Page \<Rightarrow> Object \<Rightarrow> 'w State \<Rightarrow> ((error + JSONResult) \<times> Page \<times> 'w State) option"
where
  "evalIframe env p params s =
     (let backoff = BackoffSleeper env (30 * Millisecond) (3 * Second) None
      in case Retry (ctx p) (sleep backoff) (evalIframe_fn env params) (Inr None, p) s of
           None \<Rightarrow> None
         | Some (Some err, (r, p'), s') \<Rightarrow> Some (Inl err, p', s')
         | Some (None, (r, p'), s') \<Rightarrow> Some (r, p', s'))"

definition eval ::
  "'w Env \<Rightarrow> Page \<Rightarrow> bool \<Rightarrow> string \<Rightarrow> json list \<Rightarrow> 'w State \<Rightarrow>
   ((error + JSONResult) \<times> Page \<times> 'w State) option"
where
  "eval env p byValue js jsArgs s =
     (let params = [''expression'' \<mapsto> JString (SprintFnApply env js jsArgs),
                    ''awaitPromise'' \<mapsto> JTrue,
                    ''returnByValue'' \<mapsto> JBool byValue]
      in if isIframe p then evalIframe env p params s
         else (case Call env p ''Runtime.evaluate'' (Some params) s of
                 (r, s') \<Rightarrow> Some (r, p, s')))"

definition evalThis ::
  "'w Env \<Rightarrow> Page \<Rightarrow> bool \<Rightarrow> string \<Rightarrow> string \<Rightarrow> json list \<Rightarrow> 'w State \<Rightarrow>
   (error + JSONResult) \<times> 'w State"
where
  "evalThis env p byValue thisID js jsArgs s =
     (let args = map (\<lambda>a. JObject [(''value'', a)]) jsArgs;
          params = [''objectId'' \<mapsto> JString thisID,
                    ''awaitPromise'' \<mapsto> JTrue,
                    ''returnByValue'' \<mapsto> JBool byValue,
                    ''functionDeclaration'' \<mapsto> JString (SprintFnThis env js),
                    ''arguments'' \<mapsto> JArray args]
      in Call env p ''Runtime.callFunctionOn'' (Some params) s)"

definition EvalE ::
  "'w Env \<Rightarrow> Page \<Rightarrow> bool \<Rightarrow> string \<Rightarrow> string \<Rightarrow> json list \<Rightarrow> 'w State \<Rightarrow>
   ((error + JSONResult) \<times> Page \<times> 'w State) option"
where
  "EvalE env p byValue thisID js jsArgs s =
     (case (if thisID = [] then eval env p byValue js jsArgs s
            else (case evalThis env p byValue thisID js jsArgs s of
                    (r, s') \<Rightarrow> Some (r, p, s'))) of
        None \<Rightarrow> None
      | Some (Inl err, p', s') \<Rightarrow> Some (Inl err, p', s')
      | Some (Inr res, p', s') \<Rightarrow>
          if Exists (Get ''exceptionDetails'' res)
          then Some (Inl (Error None (String (Get ''exceptionDetails.exception.description'' res))
                            (DResult res)), p', s')
          else if byValue then Some (Inr (Get ''result.value'' res), p', s')
          else Some (Inr res, p', s'))"

section \<open>Element lookup\<close>

text \<open>The closure of \<^verbatim>\<open>ElementByJSE\<close>; it captures \<^verbatim>\<open>val\<close> and \<^verbatim>\<open>p\<close>.\<close>

definition ElementByJSE_fn ::
  "'w Env \<Rightarrow> string \<Rightarrow> string \<Rightarrow> json list \<Rightarrow> JSONResult \<times> Page \<Rightarrow> 'w State \<Rightarrow>
   ((bool \<times> error option) \<times> (JSONResult \<times> Page) \<times> 'w State) option"
where
  "ElementByJSE_fn env thisID js params v s =
     (case v of (val0, p) \<Rightarrow>
        (case EvalE env p False thisID js params s of
           None \<Rightarrow> None
         | Some (Inl err, p', s') \<Rightarrow> Some ((True, Some err), (val0, p'), s')
         | Some (Inr res, p', s') \<Rightarrow>
             (let val = Get ''result'' res
              in if String (Get ''type'' val) = ''object'' \<and> String (Get ''subtype'' val) = ''null''
                 then Some ((False, None), (val, p'), s')
                 else Some ((True, None), (val, p'), s'))))"

definition ElementByJSE ::
  "'w Env \<Rightarrow> Page \<Rightarrow> (Context \<Rightarrow> 'w State \<Rightarrow> error option \<times> 'w State) \<Rightarrow>
   string \<Rightarrow> string \<Rightarrow> json list \<Rightarrow> 'w State \<Rightarrow>
   ((error + Element) \<times> Page \<times> 'w State) option"
where
  "ElementByJSE env p sleeper thisID js params s =
     (case Retry (ctx p) sleeper (ElementByJSE_fn env thisID js params) (None, p) s of
        None \<Rightarrow> None
      | Some (Some err, (val, p'), s') \<Rightarrow> Some (Inl err, p', s')
      | Some (None, (val, p'), s') \<Rightarrow>
          if String (Get ''subtype'' val) \<noteq> ''node''
          then Some (Inl (Error None (ErrExpectElement env) (DString (Raw val))), p', s')
          else Some (Inr \<lparr>page_el = p', ctx_el = ctx p',
                          ObjectID = String (Get ''objectId'' val)\<rparr>, p', s'))"

definition ReleaseObject :: "'w Env \<Rightarrow> Page \<Rightarrow> JSONResult \<Rightarrow> 'w State \<Rightarrow> 'w State" where
  "ReleaseObject env p obj s =
     (case Call env p ''Runtime.releaseObject''
             (Some [''objectId'' \<mapsto> JString (String (Get ''result.objectId'' obj))]) s of
        (Inl err, s') \<Rightarrow> s'\<lparr>fatal := fatal s' @ [err]\<rparr>
      | (Inr _, s') \<Rightarrow> s')"

text \<open>The \<^verbatim>\<open>for\<close> loop of \<^verbatim>\<open>ElementsByJSE\<close> over the enumerated properties, with
  \<^verbatim>\<open>elemList\<close> as it stands.\<close>

fun ElementsByJSE_loop ::
  "'w Env \<Rightarrow> Page \<Rightarrow> JSONResult list \<Rightarrow> Element list \<Rightarrow> error + Element list"
where
  "ElementsByJSE_loop env p [] elemList = Inr elemList"
| "ElementsByJSE_loop env p (obj # objs) elemList =
     (let name = String (Get ''name'' obj)
      in if name = ''__proto__'' \<or> name = ''length''
         then ElementsByJSE_loop env p objs elemList
         else (let val = Get ''value'' obj
               in if String (Get ''subtype'' val) \<noteq> ''node''
                  then Inl (Error None (ErrExpectElements env) (DResult val))
                  else ElementsByJSE_loop env p objs
                         (elemList @ [\<lparr>page_el = p, ctx_el = ctx p,
                                       ObjectID = String (Get ''objectId'' val)\<rparr>])))"

text \<open>\<^verbatim>\<open>ElementsByJSE\<close>; the deferred \<^verbatim>\<open>ReleaseObject(res)\<close> runs on every way out that
  follows its registration.\<close>

definition ElementsByJSE ::
  "'w Env \<Rightarrow> Page \<Rightarrow> string \<Rightarrow> string \<Rightarrow> json list \<Rightarrow> 'w State \<Rightarrow>
   ((error + Element list) \<times> Page \<times> 'w State) option"
where
  "ElementsByJSE env p thisID js params s =
     (case EvalE env p False thisID js params s of
        None \<Rightarrow> None
      | Some (Inl err, p', s1) \<Rightarrow> Some (Inl err, p', s1)
      | Some (Inr res, p', s1) \<Rightarrow>
          (let val = Get ''result'' res
           in if String (Get ''subtype'' val) \<noteq> ''array''
              then Some (Inl (Error None (ErrExpectElements env) (DResult val)), p', s1)
              else (let objectID = String (Get ''objectId'' val)
                    in if objectID = [] then Some (Inr [], p', s1)
                       else (case Call env p' ''Runtime.getProperties''
                                    (Some [''objectId'' \<mapsto> JString objectID,
                                           ''ownProperties'' \<mapsto> JTrue]) s1 of
                               (Inl err, s2) \<Rightarrow> Some (Inl err, p', ReleaseObject env p' res s2)
                             | (Inr list, s2) \<Rightarrow>
                                 Some (ElementsByJSE_loop env p' (Array (Get ''result'' list)) [],
                                       p', ReleaseObject env p' res s2)))))"

section \<open>The default sleeper\<close>

text \<open>Go's \<^verbatim>\<open>strings.HasPrefix\<close>.\<close>

definition HasPrefix :: "string \<Rightarrow> string \<Rightarrow> bool" where
  "HasPrefix s pre = (length s \<ge> length pre \<and> take (length pre) s = pre)"

text \<open>The filter handed to \<^verbatim>\<open>s.Filter\<close> in \<^verbatim>\<open>Sleeper\<close>, on a \<^verbatim>\<open>*cdp.Message\<close>.\<close>

definition Sleeper_filter :: "Message \<Rightarrow> bool" where
  "Sleeper_filter e =
     (let m = Method e
      in if HasPrefix m ''Page'' \<or> HasPrefix m ''DOM'' then True else False)"

definition Sleeper :: "'w Env \<Rightarrow> Page \<Rightarrow> 'w Sleeper" where
  "Sleeper env p =
     (let backoff = BackoffSleeper env (30 * Millisecond) (3 * Second) None
      in MergeSleepers env [backoff, WaitFiltered env Sleeper_filter])"

section \<open>Download capture\<close>

text \<open>The request built from the paused request: its URL and every header.\<close>

definition build_request :: "JSONResult \<Rightarrow> Request" where
  "build_request msgReq =
     fold (\<lambda>kv req. req\<lparr>headers := (headers req)(fst kv \<mapsto> String (snd kv))\<rparr>)
       (Map (Get ''headers'' msgReq))
       \<lparr>url = String (Get ''url'' msgReq), headers = Map.empty\<rparr>"

definition response_headers :: "(string \<times> string list) list \<Rightarrow> json list" where
  "response_headers hs =
     concat (map (\<lambda>kvs. map (\<lambda>v. JObject [(''name'', JString (fst kvs)), (''value'', JString v)])
                          (snd kvs)) hs)"

text \<open>
  \<^verbatim>\<open>GetDownloadFileE\<close> from the call of \<^verbatim>\<open>Fetch.enable\<close> on, that is, what runs between
  the registration of the deferred function and the \<^verbatim>\<open>return\<close>. The result is Go's
  triple of header, body and error.
\<close>

type_synonym Download = "(string \<times> string list) list option \<times> byte list option \<times> error option"

definition GetDownloadFileE_body :: "'w Env \<Rightarrow> Page \<Rightarrow> 'w State \<Rightarrow> Download \<times> 'w State" where
  "GetDownloadFileE_body env p s2 =
     (case WaitEventE env (ctx p) ''Fetch.requestPaused'' (world s2) of
        (Inl err, w3) \<Rightarrow> ((None, None, Some err), s2\<lparr>world := w3\<rparr>)
      | (Inr msg, w3) \<Rightarrow>
          (let req = build_request (Get ''request'' msg)
           in case ReqResponse env req w3 of
                (Inl err, w4) \<Rightarrow> ((None, None, Some err), s2\<lparr>world := w4\<rparr>)
              | (Inr res, w4) \<Rightarrow>
                  (case ReqBytes env req w4 of
                     (Inl err, w5) \<Rightarrow> ((None, None, Some err), s2\<lparr>world := w5\<rparr>)
                   | (Inr body, w5) \<Rightarrow>
                       (case Call env p ''Fetch.fulfillRequest''
                               (Some [''requestId'' \<mapsto> JString (String (Get ''requestId'' msg)),
                                      ''responseCode'' \<mapsto> JNumber (StatusCode res),
                                      ''responseHeaders'' \<mapsto> JArray (response_headers (Header res)),
                                      ''body'' \<mapsto> JString (EncodeToString env body)])
                               (s2\<lparr>world := w5\<rparr>) of
                          (r, s6) \<Rightarrow>
                            ((Some (Header res), Some body,
                              case r of Inl err \<Rightarrow> Some err | Inr _ \<Rightarrow> None), s6)))))"

text \<open>
  \<^verbatim>\<open>GetDownloadFileE\<close>. The mutex is taken on entry and released on every way out; the
  model runs one caller at a time. The deferred function assigns the outcome of
  \<^verbatim>\<open>Fetch.disable\<close> to the local \<^verbatim>\<open>err\<close> after the returned values are fixed.
\<close>

definition GetDownloadFileE ::
  "'w Env \<Rightarrow> Page \<Rightarrow> string \<Rightarrow> string \<Rightarrow> 'w State \<Rightarrow> Download \<times> 'w State"
where
  "GetDownloadFileE env p dir pattern s =
     (let params = (if pattern \<noteq> []
                    then Some [''patterns'' \<mapsto> JArray [JObject [(''urlPattern'', JString pattern)]]]
                    else None)
      in case Call env p ''Page.setDownloadBehavior''
                (Some [''behavior'' \<mapsto> JString ''allow'', ''downloadPath'' \<mapsto> JString dir]) s of
           (Inl err, s1) \<Rightarrow> ((None, None, Some err), s1)
         | (Inr _, s1) \<Rightarrow>
             (case Call env p ''Fetch.enable'' params s1 of
                (Inl err, s2) \<Rightarrow> ((None, None, Some err), s2)
              | (Inr _, s2) \<Rightarrow>
                  (case GetDownloadFileE_body env p s2 of
                     (ret, s6) \<Rightarrow> (ret, snd (Call env p ''Fetch.disable'' None s6)))))"

section \<open>Chained configuration\<close>

text \<open>
  \<^verbatim>\<open>Ctx\<close> and \<^verbatim>\<open>Timeout\<close> take a \<^verbatim>\<open>*Page\<close> and return another. Pages live in a store, a
  pointer is an index into it, and \<^verbatim>\<open>&newObj\<close> is a fresh cell. Dereferencing a pointer
  that is not in the store panics.
\<close>

datatype panic = NilDereference

definition Ctx :: "nat \<Rightarrow> Context \<Rightarrow> Page list \<Rightarrow> panic + nat \<times> Page list" where
  "Ctx p c h =
     (if p < length h
      then (let newObj = (h ! p)\<lparr>ctx := c\<rparr> in Inr (length h, h @ [newObj]))
      else Inl NilDereference)"

definition Timeout :: "nat \<Rightarrow> int \<Rightarrow> Page list \<Rightarrow> panic + nat \<times> Page list" where
  "Timeout p d h =
     (if p < length h
      then (let c = WithTimeout (ctx (h ! p)) d;
                cancel = CancelOf c;
                h1 = h[p := (h ! p)\<lparr>timeoutCancel := Some cancel\<rparr>]
            in Ctx p c h1)
      else Inl NilDereference)"

section \<open>Auxiliary definitions\<close>

text \<open>What \<^verbatim>\<open>ElementByJSE\<close> does with the outcome of its retry loop.\<close>

definition ElementByJSE_post ::
  "'w Env \<Rightarrow> (error option \<times> (JSONResult \<times> Page) \<times> 'w State) option \<Rightarrow>
   ((error + Element) \<times> Page \<times> 'w State) option"
where
  "ElementByJSE_post env x =
     (case x of
        None \<Rightarrow> None
      | Some (Some err, (val, p'), s') \<Rightarrow> Some (Inl err, p', s')
      | Some (None, (val, p'), s') \<Rightarrow>
          if String (Get ''subtype'' val) \<noteq> ''node''
          then Some (Inl (Error None (ErrExpectElement env) (DString (Raw val))), p', s')
          else Some (Inr \<lparr>page_el = p', ctx_el = ctx p',
                          ObjectID = String (Get ''objectId'' val)\<rparr>, p', s'))"

text \<open>
  The page and state reached from a page and state after \<open>n\<close> rounds of the loop of
  \<^verbatim>\<open>ElementByJSE\<close> in each of which the evaluation answered with an object of subtype
  \<^verbatim>\<open>"null"\<close> and the sleeper returned without error; \<open>None\<close> if some round went
  otherwise.
\<close>

fun null_rounds ::
  "'w Env \<Rightarrow> (Context \<Rightarrow> 'w State \<Rightarrow> error option \<times> 'w State) \<Rightarrow> Context \<Rightarrow>
   string \<Rightarrow> string \<Rightarrow> json list \<Rightarrow> nat \<Rightarrow> Page \<times> 'w State \<Rightarrow> (Page \<times> 'w State) option"
where
  "null_rounds env sleeper c thisID js params 0 ps = Some ps"
| "null_rounds env sleeper c thisID js params (Suc n) ps =
     (case EvalE env (fst ps) False thisID js params (snd ps) of
        Some (Inr res, p1, s1) \<Rightarrow>
          if String (Get ''type'' (Get ''result'' res)) = ''object'' \<and>
             String (Get ''subtype'' (Get ''result'' res)) = ''null''
          then (case sleeper c s1 of
                  (None, s2) \<Rightarrow> null_rounds env sleeper c thisID js params n (p1, s2)
                | (Some e, s2) \<Rightarrow> None)
          else None
      | _ \<Rightarrow> None)"

section \<open>A scripted browser\<close>

text \<open>
  A concrete environment for running the model: the transport answers its \<open>n\<close>-th call
  with the \<open>n\<close>-th entry of a script (the world counts the calls), the event wait
  answers with a fixed outcome, and no sleeper ever fails.
\<close>

definition script_call ::
  "(error + JSONResult) list \<Rightarrow> Context \<Rightarrow> Message \<Rightarrow> nat \<Rightarrow> (error + JSONResult) \<times> nat"
where
  "script_call answers c m w =
     (if w < length answers then answers ! w else Inl (GoError ''no answer''), Suc w)"

definition test_env :: "(error + JSONResult) list \<Rightarrow> error + JSONResult \<Rightarrow> nat Env" where
  "test_env answers event =
     \<lparr>BrowserCall = script_call answers,
      WaitEventE = (\<lambda>c name w. (event, w)),
      BackoffSleeper = (\<lambda>init maxInterval algorithm c w. (None, w)),
      MergeSleepers = (\<lambda>list c w. (None, w)),
      WaitFiltered = (\<lambda>f c w. (None, w)),
      ReqResponse = (\<lambda>req w. (Inr \<lparr>StatusCode = 200, Header = [(''Content-Type'', [''image/png''])]\<rparr>, w)),
      ReqBytes = (\<lambda>req w. (Inr [1, 2, 3], w)),
      EncodeToString = (\<lambda>body. ''AQID''),
      SprintFnApply = (\<lambda>js args. ''('' @ js @ '').apply(this, '' @ raw (JArray args) @ '')''),
      SprintFnThis = (\<lambda>js. js),
      ErrExpectElement = ''expect js to return an element'',
      ErrExpectElements = ''expect js to return an array of elements''\<rparr>"

definition page0 :: Page where
  "page0 =
     \<lparr>ctx = Background 0, browser = \<lparr>Viewport = None\<rparr>, TargetID = ''T1'', SessionID = ''S1'',
      ContextID = 1, Mouse = None, Keyboard = None, FrameID = [], element = None,
      timeoutCancel = None, getDownloadFileLock = Some 0\<rparr>"

definition frame0 :: Page where
  "frame0 = page0\<lparr>FrameID := ''F1''\<rparr>"

definition state0 :: "nat State" where
  "state0 = \<lparr>world = 0, calls = [], fatal = []\<rparr>"

definition exception_answer :: JSONResult where
  "exception_answer =
     Some (JObject [(''result'', JObject [(''type'', JString ''object'')]),
                    (''exceptionDetails'',
                     JObject [(''exception'', JObject [(''description'', JString ''ReferenceError: x'')])])])"

definition null_answer :: JSONResult where
  "null_answer =
     Some (JObject [(''result'', JObject [(''type'', JString ''object''),
                                          (''subtype'', JString ''null''), (''value'', JNull)])])"

definition node_answer :: JSONResult where
  "node_answer =
     Some (JObject [(''result'', JObject [(''type'', JString ''object''),
                                          (''subtype'', JString ''node''),
                                          (''objectId'', JString ''node-7'')])])"

definition number_answer :: JSONResult where
  "number_answer =
     Some (JObject [(''result'', JObject [(''type'', JString ''number''), (''value'', JNumber 42)])])"

definition no_wait :: "Context \<Rightarrow> nat State \<Rightarrow> error option \<times> nat State" where
  "no_wait c s = (None, s)"

definition array_answer :: JSONResult where
  "array_answer =
     Some (JObject [(''result'', JObject [(''type'', JString ''object''),
                                          (''subtype'', JString ''array''),
                                          (''objectId'', JString ''arr-1'')])])"

definition node_property :: "string \<Rightarrow> string \<Rightarrow> json" where
  "node_property name oid =
     JObject [(''name'', JString name),
              (''value'', JObject [(''type'', JString ''object''), (''subtype'', JString ''node''),
                                   (''objectId'', JString oid)])]"

definition length_property :: json where
  "length_property =
     JObject [(''name'', JString ''length''),
              (''value'', JObject [(''type'', JString ''number''), (''value'', JNumber 2)])]"

definition proto_property :: json where
  "proto_property =
     JObject [(''name'', JString ''__proto__''),
              (''value'', JObject [(''type'', JString ''object''), (''objectId'', JString ''proto-1'')])]"

definition properties_answer :: "json list \<Rightarrow> JSONResult" where
  "properties_answer props = Some (JObject [(''result'', JArray props)])"

definition attach_answer :: JSONResult where
  "attach_answer = Some (JObject [(''sessionId'', JString ''S9'')])"

definition viewport0 :: Object where
  "viewport0 = [''width'' \<mapsto> JNumber 800, ''height'' \<mapsto> JNumber 600]"

definition text_property :: json where
  "text_property =
     JObject [(''name'', JString ''1''),
              (''value'', JObject [(''type'', JString ''string''), (''value'', JString ''x'')])]"

definition fresh_page :: Page where
  "fresh_page = page0\<lparr>SessionID := []\<rparr>"

definition params0 :: Object where
  "params0 = [''expression'' \<mapsto> JString ''(() => 1).apply(this, [])'',
              ''awaitPromise'' \<mapsto> JTrue, ''returnByValue'' \<mapsto> JTrue]"

definition frame_answer :: JSONResult where
  "frame_answer = Some (JObject [(''executionContextId'', JNumber 5)])"

definition value_answer :: JSONResult where
  "value_answer =
     Some (JObject [(''result'', JObject [(''type'', JString ''number''), (''value'', JNumber 1)])])"

definition stale :: error where
  "stale = CdpError (- 32000) ''Cannot find context with specified id''"

definition contextId_of :: "Message \<Rightarrow> json option" where
  "contextId_of m = (case Params m of None \<Rightarrow> None | Some ps \<Rightarrow> ps ''contextId'')"

definition paused_event :: JSONResult where
  "paused_event =
     Some (JObject [(''requestId'', JString ''req-1''),
                    (''request'', JObject [(''url'', JString ''http://example.com/a.png''),
                                           (''headers'', JObject [(''Accept'', JString ''image/png'')])])])"

definition is_disable :: "Message \<Rightarrow> bool" where
  "is_disable m = (Method m = ''Fetch.disable'')"

section \<open>The retry loop\<close>

text \<open>A property that the operation and the sleeper both keep holds when the loop ends.\<close>

lemma Retry_invariant:
  assumes run: "Retry c sl fn v s = Some y"
    and init: "I v s"
    and F: "\<And>v s r v1 s1. I v s \<Longrightarrow> fn v s = Some (r, v1, s1) \<Longrightarrow> I v1 s1"
    and S: "\<And>v s e s1. I v s \<Longrightarrow> sl c s = (e, s1) \<Longrightarrow> I v s1"
  shows "I (fst (snd y)) (snd (snd y))"
proof -
  let ?Q = "\<lambda>c' sl' fn' v s y. c' = c \<longrightarrow> sl' = sl \<longrightarrow> fn' = fn \<longrightarrow> I v s \<longrightarrow> I (fst (snd y)) (snd (snd y))"
  have "?Q c sl fn v s y"
  proof (rule Retry.raw_induct[where P = ?Q, OF _ run])
    fix Retry' c' sl' fn' v s y
    assume IH: "\<And>sl'' fn'' v s b y. Retry' sl'' fn'' v s b = Some y \<Longrightarrow> ?Q sl'' fn'' v s b y"
      and body: "(case fn' v s of None \<Rightarrow> None
          | Some ((stop, err), v', s') \<Rightarrow>
              (if stop \<or> err \<noteq> None then Some (err, v', s')
               else (case sl' c' s' of (None, s'') \<Rightarrow> Retry' c' sl' fn' v' s''
                   | (Some e, s'') \<Rightarrow> Some (Some e, v', s'')))) = Some y"
    show "?Q c' sl' fn' v s y"
    proof (intro impI)
      assume eqs: "c' = c" "sl' = sl" "fn' = fn" and I0: "I v s"
      from body obtain stop err v1 s1 where fn: "fn v s = Some ((stop, err), v1, s1)"
        unfolding eqs by (cases "fn v s") auto
      from F[OF I0 fn] have I1: "I v1 s1" .
      show "I (fst (snd y)) (snd (snd y))"
      proof (cases "stop \<or> err \<noteq> None")
        case True
        with body fn have "y = (err, v1, s1)" unfolding eqs by auto
        with I1 show ?thesis by simp
      next
        case False
        obtain e s2 where sl: "sl c s1 = (e, s2)" by (cases "sl c s1")
        from S[OF I1 sl] have I2: "I v1 s2" .
        show ?thesis
        proof (cases e)
          case None
          with body fn False sl have "Retry' c sl fn v1 s2 = Some y" unfolding eqs by simp
          from IH[OF this] I2 show ?thesis by blast
        next
          case (Some e')
          with body fn False sl have "y = (Some e', v1, s2)" unfolding eqs by auto
          with I2 show ?thesis by simp
        qed
      qed
    qed
  qed
  with init show ?thesis by blast
qed

section \<open>What an evaluation leaves of the page\<close>

text \<open>An evaluation assigns no field of the page but \<^verbatim>\<open>ContextID\<close>.\<close>

lemma initIsolatedWorld_page:
  "initIsolatedWorld env p s = (e, p', s') \<Longrightarrow> p'\<lparr>ContextID := ContextID p\<rparr> = p"
  by (auto simp: initIsolatedWorld_def split: prod.splits sum.splits)

lemma evalIframe_fn_page:
  "evalIframe_fn env params (r0, p) s = Some (x, (r, p'), s') \<Longrightarrow> p'\<lparr>ContextID := ContextID p\<rparr> = p"
  by (auto simp: evalIframe_fn_def split: prod.splits sum.splits error.splits if_splits
      dest: initIsolatedWorld_page)

lemma evalIframe_page:
  assumes "evalIframe env p params s = Some (r, p', s')"
  shows "p'\<lparr>ContextID := ContextID p\<rparr> = p"
proof -
  let ?I = "\<lambda>(v :: (error + JSONResult) \<times> Page) (s :: 'a State). (snd v)\<lparr>ContextID := ContextID p\<rparr> = p"
  from assms obtain e r1 where
    run: "Retry (ctx p) (sleep (BackoffSleeper env (30 * Millisecond) (3 * Second) None))
            (evalIframe_fn env params) (Inr None, p) s = Some (e, (r1, p'), s')"
    by (auto simp: evalIframe_def Let_def split: option.splits prod.splits)
  have "?I (fst (snd (e, (r1, p'), s'))) (snd (snd (e, (r1, p'), s')))"
  proof (rule Retry_invariant[where I = ?I, OF run])
    show "?I (Inr None, p) s" by simp
  next
    fix v s x v1 s1
    assume a: "?I v s" and b: "evalIframe_fn env params v s = Some (x, v1, s1)"
    obtain r0 q where v: "v = (r0, q)" by (cases v)
    obtain r2 q2 where v1: "v1 = (r2, q2)" by (cases v1)
    from evalIframe_fn_page[OF b[unfolded v v1]] have "q2\<lparr>ContextID := ContextID q\<rparr> = q" .
    with a v v1 show "?I v1 s1"
      by (metis Page.surjective Page.update_convs(5) snd_conv)
  qed simp
  then show ?thesis by simp
qed

lemma eval_page:
  "eval env p byValue js jsArgs s = Some (r, p', s') \<Longrightarrow> p'\<lparr>ContextID := ContextID p\<rparr> = p"
  by (auto simp: eval_def Let_def split: if_splits prod.splits dest: evalIframe_page)

lemma EvalE_page:
  "EvalE env p byValue thisID js jsArgs s = Some (r, p', s') \<Longrightarrow> p'\<lparr>ContextID := ContextID p\<rparr> = p"
  by (auto simp: EvalE_def split: if_splits prod.splits option.splits sum.splits dest: eval_page)

lemma EvalE_ctx:
  "EvalE env p byValue thisID js jsArgs s = Some (r, p', s') \<Longrightarrow> ctx p' = ctx p"
  by (drule EvalE_page) (metis Page.select_convs(1) Page.surjective Page.update_convs(5))

lemma Call_calls:
  "Call env p method params s = (r, s') \<Longrightarrow>
   calls s' = calls s @ [\<lparr>SessionID_msg = SessionID p, Method = method, Params = params\<rparr>]"
  by (auto simp: Call_def Let_def split: prod.splits)

lemma EvalE_test_env:
  assumes "world s < length answers" "answers ! world s = Inr res"
    "\<not> Exists (Get ''exceptionDetails'' res)"
  shows "\<exists>s'. EvalE (test_env answers ev) page0 False [] js args s = Some (Inr res, page0, s') \<and>
              world s' = Suc (world s)"
  using assms
  by (simp add: EvalE_def eval_def isIframe_def page0_def Call_def test_env_def script_call_def)

lemma EvalE_test_env_error:
  assumes "world s < length answers" "answers ! world s = Inl err"
  shows "\<exists>s'. EvalE (test_env answers ev) page0 False [] js args s = Some (Inl err, page0, s') \<and>
              world s' = Suc (world s)"
  using assms
  by (simp add: EvalE_def eval_def isIframe_def page0_def Call_def test_env_def script_call_def)

lemma Call_test_env:
  assumes "world s < length answers"
  shows "\<exists>s'. Call (test_env answers ev) p method params s = (answers ! world s, s') \<and>
              world s' = Suc (world s)"
  using assms by (simp add: Call_def test_env_def script_call_def)

lemma sleep_test_env:
  "sleep (BackoffSleeper (test_env answers ev) a b alg) c s = (None, s)"
  by (simp add: sleep_def test_env_def)

lemma Call_test_env_calls:
  assumes "world s < length answers"
  shows "\<exists>s'. Call (test_env answers ev) p method params s = (answers ! world s, s') \<and>
              world s' = Suc (world s) \<and>
              calls s' = calls s @ [\<lparr>SessionID_msg = SessionID p, Method = method, Params = params\<rparr>]"
  using assms by (simp add: Call_def test_env_def script_call_def)

section \<open>Single-element lookup\<close>

lemma ElementByJSE_unfold:
  "ElementByJSE env p sleeper thisID js params s =
     ElementByJSE_post env (Retry (ctx p) sleeper (ElementByJSE_fn env thisID js params) (None, p) s)"
  by (simp add: ElementByJSE_def ElementByJSE_post_def)

lemma ElementByJSE_val0:
  "ElementByJSE_post env (Retry c sleeper (ElementByJSE_fn env thisID js params) (v0, p) s) =
   ElementByJSE_post env (Retry c sleeper (ElementByJSE_fn env thisID js params) (v1, p) s)"
proof (cases "EvalE env p False thisID js params s")
  case None
  then show ?thesis
    by (simp only: Retry.simps[of _ _ _ "(v0, p)" s] Retry.simps[of _ _ _ "(v1, p)" s])
      (simp add: ElementByJSE_fn_def)
next
  case (Some y)
  obtain r p' s' where y: "y = (r, p', s')" by (cases y)
  show ?thesis
  proof (cases r)
    case (Inl err)
    with Some y show ?thesis
      by (simp only: Retry.simps[of _ _ _ "(v0, p)" s] Retry.simps[of _ _ _ "(v1, p)" s])
        (simp add: ElementByJSE_fn_def ElementByJSE_post_def)
  next
    case (Inr res)
    with Some y show ?thesis
      by (simp only: Retry.simps[of _ _ _ "(v0, p)" s] Retry.simps[of _ _ _ "(v1, p)" s])
        (simp add: ElementByJSE_fn_def Let_def)
  qed
qed

text \<open>
  Claim C1. In \<^verbatim>\<open>ElementByJSE\<close>, when the evaluation answers with a result: if the result
  is an object of subtype \<^verbatim>\<open>"null"\<close>, the loop goes on (the sleeper runs, and unless it
  fails the lookup starts over from the state reached); if its subtype is \<^verbatim>\<open>"node"\<close>,
  the loop ends and the call returns an Element whose \<^verbatim>\<open>ObjectID\<close> is the result's
  \<^verbatim>\<open>objectId\<close>; if it is neither, the loop ends and the call fails with the
  \<^verbatim>\<open>ErrExpectElement\<close> error carrying the raw value.
\<close>

theorem ElementByJSE_iteration:
  assumes ev: "EvalE env p False thisID js params s = Some (Inr res, p1, s1)"
  shows "(String (Get ''type'' (Get ''result'' res)) = ''object'' \<and>
          String (Get ''subtype'' (Get ''result'' res)) = ''null'' \<longrightarrow>
            ElementByJSE env p sleeper thisID js params s =
              (case sleeper (ctx p) s1 of
                 (Some e, s2) \<Rightarrow> Some (Inl e, p1, s2)
               | (None, s2) \<Rightarrow> ElementByJSE env p1 sleeper thisID js params s2)) \<and>
         (String (Get ''subtype'' (Get ''result'' res)) = ''node'' \<longrightarrow>
            ElementByJSE env p sleeper thisID js params s =
              Some (Inr \<lparr>page_el = p1, ctx_el = ctx p1,
                         ObjectID = String (Get ''objectId'' (Get ''result'' res))\<rparr>, p1, s1)) \<and>
         (\<not> (String (Get ''type'' (Get ''result'' res)) = ''object'' \<and>
             String (Get ''subtype'' (Get ''result'' res)) = ''null'') \<and>
          String (Get ''subtype'' (Get ''result'' res)) \<noteq> ''node'' \<longrightarrow>
            ElementByJSE env p sleeper thisID js params s =
              Some (Inl (Error None (ErrExpectElement env) (DString (Raw (Get ''result'' res)))),
                    p1, s1))"
proof -
  let ?fn = "ElementByJSE_fn env thisID js params"
  let ?val = "Get ''result'' res"
  have c: "ctx p1 = ctx p" using EvalE_ctx[OF ev] .
  have fn: "?fn (None, p) s =
      (if String (Get ''type'' ?val) = ''object'' \<and> String (Get ''subtype'' ?val) = ''null''
       then Some ((False, None), (?val, p1), s1) else Some ((True, None), (?val, p1), s1))"
    by (simp add: ElementByJSE_fn_def ev Let_def)
  have null: "ElementByJSE env p sleeper thisID js params s =
              (case sleeper (ctx p) s1 of
                 (Some e, s2) \<Rightarrow> Some (Inl e, p1, s2)
               | (None, s2) \<Rightarrow> ElementByJSE env p1 sleeper thisID js params s2)"
    if n: "String (Get ''type'' ?val) = ''object''" "String (Get ''subtype'' ?val) = ''null''"
  proof (cases "sleeper (ctx p) s1")
    case (Pair e s2)
    have r: "Retry (ctx p) sleeper ?fn (None, p) s =
       (case e of Some e' \<Rightarrow> Some (Some e', (?val, p1), s2)
        | None \<Rightarrow> Retry (ctx p) sleeper ?fn (?val, p1) s2)"
      by (simp only: Retry.simps[of _ _ _ "(None, p)" s]) (simp add: fn n Pair split: option.splits)
    show ?thesis
    proof (cases e)
      case None
      with Pair r show ?thesis
        by (simp add: ElementByJSE_unfold c
            ElementByJSE_val0[of env _ sleeper thisID js params ?val p1 s2 None])
    next
      case (Some e')
      with Pair r show ?thesis
        by (simp add: ElementByJSE_unfold ElementByJSE_post_def)
    qed
  qed
  have stop: "ElementByJSE env p sleeper thisID js params s =
      ElementByJSE_post env (Some (None, (?val, p1), s1))"
    if n: "\<not> (String (Get ''type'' ?val) = ''object'' \<and> String (Get ''subtype'' ?val) = ''null'')"
  proof -
    have "Retry (ctx p) sleeper ?fn (None, p) s = Some (None, (?val, p1), s1)"
      by (simp only: Retry.simps[of _ _ _ "(None, p)" s]) (use n in \<open>auto simp: fn\<close>)
    then show ?thesis by (simp add: ElementByJSE_unfold)
  qed
  show ?thesis
    using null stop by (auto simp: ElementByJSE_post_def)
qed

theorem ElementByJSE_iteration_witness:
  "map_option fst (ElementByJSE (test_env [Inr null_answer, Inr node_answer] (Inr None)) page0 no_wait
      [] ''() => document.body'' [] state0) =
     Some (Inr \<lparr>page_el = page0, ctx_el = Background 0, ObjectID = ''node-7''\<rparr>) \<and>
   map_option fst (ElementByJSE (test_env [Inr number_answer] (Inr None)) page0 no_wait
      [] ''() => 42'' [] state0) =
     Some (Inl (Error None ''expect js to return an element''
                  (DString (Raw (Get ''result'' number_answer)))))"
proof -
  let ?env = "test_env [Inr null_answer, Inr node_answer] (Inr None)"
  let ?js = "''() => document.body''"
  obtain s1 where e0: "EvalE ?env page0 False [] ?js [] state0 = Some (Inr null_answer, page0, s1)"
    and w1: "world s1 = 1"
    using EvalE_test_env[of state0 "[Inr null_answer, Inr node_answer]" null_answer "Inr None" ?js "[]"]
    by (auto simp: state0_def Exists_def Get_def null_answer_def)
  obtain s2 where e1: "EvalE ?env page0 False [] ?js [] s1 = Some (Inr node_answer, page0, s2)"
    using EvalE_test_env[of s1 "[Inr null_answer, Inr node_answer]" node_answer "Inr None" ?js "[]"] w1
    by (auto simp: Exists_def Get_def node_answer_def)
  have a: "ElementByJSE ?env page0 no_wait [] ?js [] state0 = ElementByJSE ?env page0 no_wait [] ?js [] s1"
    using ElementByJSE_iteration[OF e0, of no_wait]
    by (simp add: Get_def String_def null_answer_def no_wait_def)
  have b: "ElementByJSE ?env page0 no_wait [] ?js [] s1 =
      Some (Inr \<lparr>page_el = page0, ctx_el = Background 0, ObjectID = ''node-7''\<rparr>, page0, s2)"
    using ElementByJSE_iteration[OF e1, of no_wait]
    by (simp add: Get_def String_def node_answer_def page0_def)
  let ?env' = "test_env [Inr number_answer] (Inr None)"
  obtain s3 where e2: "EvalE ?env' page0 False [] ''() => 42'' [] state0 = Some (Inr number_answer, page0, s3)"
    using EvalE_test_env[of state0 "[Inr number_answer]" number_answer "Inr None" "''() => 42''" "[]"]
    by (auto simp: state0_def Exists_def Get_def number_answer_def)
  have c: "ElementByJSE ?env' page0 no_wait [] ''() => 42'' [] state0 =
      Some (Inl (Error None ''expect js to return an element''
                  (DString (Raw (Get ''result'' number_answer)))), page0, s3)"
    using ElementByJSE_iteration[OF e2, of no_wait]
    by (simp add: Get_def String_def number_answer_def test_env_def)
  show ?thesis by (simp add: a b c)
qed

lemma ElementByJSE_null_step:
  assumes ev: "EvalE env p False thisID js params s = Some (Inr res, p1, s1)"
    and n: "String (Get ''type'' (Get ''result'' res)) = ''object''"
      "String (Get ''subtype'' (Get ''result'' res)) = ''null''"
  shows "ElementByJSE env p sleeper thisID js params s =
           (case sleeper (ctx p) s1 of
              (Some e, s2) \<Rightarrow> Some (Inl e, p1, s2)
            | (None, s2) \<Rightarrow> ElementByJSE env p1 sleeper thisID js params s2)"
proof -
  let ?fn = "ElementByJSE_fn env thisID js params"
  let ?val = "Get ''result'' res"
  have c: "ctx p1 = ctx p" using EvalE_ctx[OF ev] .
  have fn: "?fn (None, p) s = Some ((False, None), (?val, p1), s1)"
    by (simp add: ElementByJSE_fn_def ev Let_def n)
  obtain e s2 where sl: "sleeper (ctx p) s1 = (e, s2)" by (cases "sleeper (ctx p) s1")
  have r: "Retry (ctx p) sleeper ?fn (None, p) s =
       (case e of Some e' \<Rightarrow> Some (Some e', (?val, p1), s2)
        | None \<Rightarrow> Retry (ctx p) sleeper ?fn (?val, p1) s2)"
    by (simp only: Retry.simps[of _ _ _ "(None, p)" s]) (simp add: fn sl split: option.splits)
  show ?thesis
  proof (cases e)
    case None
    with sl r show ?thesis
      by (simp add: ElementByJSE_unfold c
          ElementByJSE_val0[of env _ sleeper thisID js params ?val p1 s2 None])
  next
    case (Some e')
    with sl r show ?thesis
      by (simp add: ElementByJSE_unfold ElementByJSE_post_def)
  qed
qed

lemma ElementByJSE_stop_step:
  assumes ev: "EvalE env p False thisID js params s = Some (Inr res, p1, s1)"
    and n: "\<not> (String (Get ''type'' (Get ''result'' res)) = ''object'' \<and>
               String (Get ''subtype'' (Get ''result'' res)) = ''null'')"
  shows "ElementByJSE env p sleeper thisID js params s =
           Some (if String (Get ''subtype'' (Get ''result'' res)) \<noteq> ''node''
                 then Inl (Error None (ErrExpectElement env) (DString (Raw (Get ''result'' res))))
                 else Inr \<lparr>page_el = p1, ctx_el = ctx p1,
                           ObjectID = String (Get ''objectId'' (Get ''result'' res))\<rparr>,
                 p1, s1)"
proof -
  let ?fn = "ElementByJSE_fn env thisID js params"
  have fn: "?fn (None, p) s = Some ((True, None), (Get ''result'' res, p1), s1)"
    using n by (auto simp: ElementByJSE_fn_def ev Let_def)
  have "Retry (ctx p) sleeper ?fn (None, p) s = Some (None, (Get ''result'' res, p1), s1)"
    by (simp only: Retry.simps[of _ _ _ "(None, p)" s]) (simp add: fn)
  then show ?thesis by (simp add: ElementByJSE_unfold ElementByJSE_post_def)
qed

lemma ElementByJSE_abort_step:
  assumes ev: "EvalE env p False thisID js params s = Some (Inl err, p1, s1)"
  shows "ElementByJSE env p sleeper thisID js params s = Some (Inl err, p1, s1)"
  by (simp only: ElementByJSE_def Retry.simps[of _ _ _ "(None, p)" s])
    (simp add: ElementByJSE_fn_def ev)

lemma ElementByJSE_null_rounds:
  "null_rounds env sleeper (ctx p) thisID js params n (p, s) = Some (pn, sn) \<Longrightarrow>
   ElementByJSE env p sleeper thisID js params s = ElementByJSE env pn sleeper thisID js params sn \<and>
   ctx pn = ctx p"
proof (induction n arbitrary: p s)
  case 0
  then show ?case by simp
next
  case (Suc n)
  from Suc.prems obtain res p1 s1 where
    ev: "EvalE env p False thisID js params s = Some (Inr res, p1, s1)"
    by (auto split: option.splits sum.splits prod.splits)
  from Suc.prems ev have nl: "String (Get ''type'' (Get ''result'' res)) = ''object''"
      "String (Get ''subtype'' (Get ''result'' res)) = ''null''"
    by (auto split: if_splits)
  obtain e s2 where sl: "sleeper (ctx p) s1 = (e, s2)" by (cases "sleeper (ctx p) s1")
  from Suc.prems ev nl sl have e: "e = None"
    by (cases e) auto
  have c: "ctx p1 = ctx p" using EvalE_ctx[OF ev] .
  from Suc.prems ev nl sl e
  have rest: "null_rounds env sleeper (ctx p1) thisID js params n (p1, s2) = Some (pn, sn)"
    by (simp add: c)
  from Suc.IH[OF rest] c
  have "ElementByJSE env p1 sleeper thisID js params s2 =
        ElementByJSE env pn sleeper thisID js params sn" "ctx pn = ctx p"
    by simp_all
  moreover have "ElementByJSE env p sleeper thisID js params s =
      ElementByJSE env p1 sleeper thisID js params s2"
    using ElementByJSE_null_step[OF ev nl, of sleeper] sl e by simp
  ultimately show ?case by simp
qed

text \<open>
  Claim C10. Take \<^verbatim>\<open>ElementByJSE\<close> at any round of its loop, that is, after any number of
  rounds that ended with a null object and a sleep, and name the outcome of the
  evaluation of that round. If it is an error, the call returns that error as it is, from
  the state the evaluation left: no sleep and no further evaluation follow. If it is a
  result that is not an object of subtype \<^verbatim>\<open>"null"\<close>, the call returns from the state the
  evaluation left as well, with the Element or the \<^verbatim>\<open>ErrExpectElement\<close> error. Only if it
  is an object of subtype \<^verbatim>\<open>"null"\<close> does the sleeper run and, unless it fails, the loop
  go into another round.
\<close>

theorem ElementByJSE_error:
  assumes rounds: "null_rounds env sleeper (ctx p) thisID js params n (p, s) = Some (pn, sn)"
    and ev: "EvalE env pn False thisID js params sn = Some (r, p', s')"
  shows "(\<forall>err. r = Inl err \<longrightarrow>
            ElementByJSE env p sleeper thisID js params s = Some (Inl err, p', s')) \<and>
         (\<forall>res. r = Inr res \<and>
            \<not> (String (Get ''type'' (Get ''result'' res)) = ''object'' \<and>
               String (Get ''subtype'' (Get ''result'' res)) = ''null'') \<longrightarrow>
            ElementByJSE env p sleeper thisID js params s =
              Some (if String (Get ''subtype'' (Get ''result'' res)) \<noteq> ''node''
                    then Inl (Error None (ErrExpectElement env) (DString (Raw (Get ''result'' res))))
                    else Inr \<lparr>page_el = p', ctx_el = ctx p',
                              ObjectID = String (Get ''objectId'' (Get ''result'' res))\<rparr>,
                    p', s')) \<and>
         (\<forall>res. r = Inr res \<and>
            String (Get ''type'' (Get ''result'' res)) = ''object'' \<and>
            String (Get ''subtype'' (Get ''result'' res)) = ''null'' \<longrightarrow>
            ElementByJSE env p sleeper thisID js params s =
              (case sleeper (ctx p) s' of
                 (Some e, s2) \<Rightarrow> Some (Inl e, p', s2)
               | (None, s2) \<Rightarrow> ElementByJSE env p' sleeper thisID js params s2))"
proof -
  note R = ElementByJSE_null_rounds[OF rounds]
  show ?thesis
  proof (intro conjI allI impI)
    fix err assume "r = Inl err"
    with ev R show "ElementByJSE env p sleeper thisID js params s = Some (Inl err, p', s')"
      using ElementByJSE_abort_step[of env pn thisID js params sn err p' s' sleeper] by simp
  next
    fix res
    assume h: "r = Inr res \<and>
            \<not> (String (Get ''type'' (Get ''result'' res)) = ''object'' \<and>
               String (Get ''subtype'' (Get ''result'' res)) = ''null'')"
    with ev have e: "EvalE env pn False thisID js params sn = Some (Inr res, p', s')" by simp
    from ElementByJSE_stop_step[OF e h[THEN conjunct2], of sleeper] R
    show "ElementByJSE env p sleeper thisID js params s =
              Some (if String (Get ''subtype'' (Get ''result'' res)) \<noteq> ''node''
                    then Inl (Error None (ErrExpectElement env) (DString (Raw (Get ''result'' res))))
                    else Inr \<lparr>page_el = p', ctx_el = ctx p',
                              ObjectID = String (Get ''objectId'' (Get ''result'' res))\<rparr>,
                    p', s')"
      by simp
  next
    fix res
    assume h: "r = Inr res \<and>
            String (Get ''type'' (Get ''result'' res)) = ''object'' \<and>
            String (Get ''subtype'' (Get ''result'' res)) = ''null''"
    with ev have e: "EvalE env pn False thisID js params sn = Some (Inr res, p', s')" by simp
    from ElementByJSE_null_step[OF e h[THEN conjunct2, THEN conjunct1] h[THEN conjunct2, THEN conjunct2], of sleeper] R
    show "ElementByJSE env p sleeper thisID js params s =
              (case sleeper (ctx p) s' of
                 (Some e, s2) \<Rightarrow> Some (Inl e, p', s2)
               | (None, s2) \<Rightarrow> ElementByJSE env p' sleeper thisID js params s2)"
      by simp
  qed
qed

theorem ElementByJSE_error_witness:
  "(case ElementByJSE
           (test_env [Inr null_answer, Inl (CdpError (- 32601) ''method not found''), Inr node_answer]
              (Inr None))
           page0 no_wait [] ''() => document.body'' [] state0 of
      None \<Rightarrow> False
    | Some (r, p', s') \<Rightarrow> r = Inl (CdpError (- 32601) ''method not found'') \<and> world s' = 2) \<and>
   (case ElementByJSE (test_env [Inl (CdpError (- 32601) ''method not found''), Inr node_answer] (Inr None))
           page0 no_wait [] ''() => document.body'' [] state0 of
      None \<Rightarrow> False
    | Some (r, p', s') \<Rightarrow> r = Inl (CdpError (- 32601) ''method not found'') \<and> world s' = 1)"
proof -
  let ?err = "CdpError (- 32601) ''method not found''"
  let ?js = "''() => document.body''"
  have w0: "world state0 = 0" by (simp add: state0_def)
  \<comment> \<open>the error follows one null result\<close>
  let ?A = "[Inr null_answer, Inl ?err, Inr node_answer]"
  let ?env = "test_env ?A (Inr None)"
  have nl: "String (Get ''type'' (Get ''result'' null_answer)) = ''object''"
      "String (Get ''subtype'' (Get ''result'' null_answer)) = ''null''"
    and noex: "\<not> Exists (Get ''exceptionDetails'' null_answer)"
    by (simp_all add: Get_def String_def Exists_def null_answer_def)
  obtain s1 where e0: "EvalE ?env page0 False [] ?js [] state0 = Some (Inr null_answer, page0, s1)"
    and w1: "world s1 = 1"
    using EvalE_test_env[of state0 ?A null_answer "Inr None" ?js "[]"] noex w0
    by auto
  obtain s2 where e1: "EvalE ?env page0 False [] ?js [] s1 = Some (Inl ?err, page0, s2)"
    and w2: "world s2 = 2"
    using EvalE_test_env_error[of s1 ?A ?err "Inr None" ?js "[]"] w1
    by auto
  have rounds: "null_rounds ?env no_wait (ctx page0) [] ?js [] (Suc 0) (page0, state0) = Some (page0, s1)"
    by (simp add: e0 nl no_wait_def)
  from ElementByJSE_error[OF rounds e1]
  have "ElementByJSE ?env page0 no_wait [] ?js [] state0 = Some (Inl ?err, page0, s2)"
    by simp
  then have a: "(case ElementByJSE ?env page0 no_wait [] ?js [] state0 of
      None \<Rightarrow> False
    | Some (r, p', s') \<Rightarrow> r = Inl ?err \<and> world s' = 2)"
    by (simp add: w2)
  \<comment> \<open>the error comes first\<close>
  let ?B = "[Inl ?err, Inr node_answer]"
  let ?envB = "test_env ?B (Inr None)"
  obtain t1 where f0: "EvalE ?envB page0 False [] ?js [] state0 = Some (Inl ?err, page0, t1)"
    and v1: "world t1 = 1"
    using EvalE_test_env_error[of state0 ?B ?err "Inr None" ?js "[]"] w0
    by auto
  have rounds0: "null_rounds ?envB no_wait (ctx page0) [] ?js [] 0 (page0, state0) = Some (page0, state0)"
    by simp
  from ElementByJSE_error[OF rounds0 f0]
  have "ElementByJSE ?envB page0 no_wait [] ?js [] state0 = Some (Inl ?err, page0, t1)"
    by simp
  then have b: "(case ElementByJSE ?envB page0 no_wait [] ?js [] state0 of
      None \<Rightarrow> False
    | Some (r, p', s') \<Rightarrow> r = Inl ?err \<and> world s' = 1)"
    by (simp add: v1)
  show ?thesis using a b by blast
qed

section \<open>Evaluation\<close>

text \<open>
  Claim C5. In \<^verbatim>\<open>EvalE\<close>, when the raw protocol result has an \<^verbatim>\<open>exceptionDetails\<close>
  field, the call returns the error that carries the exception's description and the raw
  result, and no value; whenever the call returns a value, the raw result had no
  \<^verbatim>\<open>exceptionDetails\<close>.
\<close>

theorem EvalE_exception:
  assumes raw: "(thisID = [] \<and> eval env p byValue js jsArgs s = Some (r, p', s')) \<or>
           (thisID \<noteq> [] \<and> evalThis env p byValue thisID js jsArgs s = (r, s') \<and> p' = p)"
  shows "(\<forall>res. r = Inr res \<and> Exists (Get ''exceptionDetails'' res) \<longrightarrow>
            EvalE env p byValue thisID js jsArgs s =
              Some (Inl (Error None (String (Get ''exceptionDetails.exception.description'' res))
                           (DResult res)), p', s')) \<and>
         (\<forall>v q t. EvalE env p byValue thisID js jsArgs s = Some (Inr v, q, t) \<longrightarrow>
            (\<exists>res. r = Inr res \<and> \<not> Exists (Get ''exceptionDetails'' res)))"
  using raw by (auto simp: EvalE_def split: sum.splits if_splits)

theorem EvalE_exception_witness:
  "map_option fst (EvalE (test_env [Inr exception_answer] (Inr None)) page0 True [] ''() => x'' [] state0) =
     Some (Inl (Error None ''ReferenceError: x'' (DResult exception_answer)))"
proof -
  let ?env = "test_env [Inr exception_answer] (Inr None)"
  obtain s' where ev: "eval ?env page0 True ''() => x'' [] state0 = Some (Inr exception_answer, page0, s')"
    by (simp add: eval_def isIframe_def page0_def Call_def test_env_def script_call_def state0_def)
  have ex: "Exists (Get ''exceptionDetails'' exception_answer)"
    by (simp add: Exists_def Get_def exception_answer_def)
  have d: "String (Get ''exceptionDetails.exception.description'' exception_answer) = ''ReferenceError: x''"
    by (simp add: String_def Get_def exception_answer_def)
  from EvalE_exception[of "[]" ?env page0 True "''() => x''" "[]" state0 "Inr exception_answer" page0 s']
    ev ex d
  show ?thesis by simp
qed

section \<open>Properties of the default sleeper\<close>

lemma HasPrefix_prefix: "HasPrefix s pre = prefix pre s"
  by (auto simp: HasPrefix_def prefix_def take_is_prefix dest: prefix_length_le)
    (metis append_eq_conv_conj)

text \<open>
  Claim C8. The page's default sleeper merges a backoff sleeper that starts at 30 ms, is
  capped at 3 s and is given no algorithm of its own, with a wait on the event bus whose
  filter accepts exactly the messages whose method starts with \<^verbatim>\<open>"Page"\<close> or \<^verbatim>\<open>"DOM"\<close>.
\<close>

theorem Sleeper_default:
  "Sleeper env p =
     MergeSleepers env [BackoffSleeper env 30000000 3000000000 None, WaitFiltered env Sleeper_filter] \<and>
   (\<forall>e. Sleeper_filter e = (prefix ''Page'' (Method e) \<or> prefix ''DOM'' (Method e)))"
  by (simp add: Sleeper_def Sleeper_filter_def Millisecond_def Second_def HasPrefix_prefix Let_def)

section \<open>Bulk lookup\<close>

lemma find_Some_set: "find P xs = Some x \<Longrightarrow> x \<in> set xs \<and> P x"
  by (induction xs) (auto split: if_splits)

lemma ElementsByJSE_loop_find:
  "ElementsByJSE_loop env p objs acc =
     (case find (\<lambda>obj. String (Get ''subtype'' (Get ''value'' obj)) \<noteq> ''node'')
             (filter (\<lambda>obj. String (Get ''name'' obj) \<noteq> ''__proto__'' \<and>
                             String (Get ''name'' obj) \<noteq> ''length'') objs) of
        None \<Rightarrow>
          Inr (acc @ map (\<lambda>obj. \<lparr>page_el = p, ctx_el = ctx p,
                                   ObjectID = String (Get ''objectId'' (Get ''value'' obj))\<rparr>)
                       (filter (\<lambda>obj. String (Get ''name'' obj) \<noteq> ''__proto__'' \<and>
                                       String (Get ''name'' obj) \<noteq> ''length'') objs))
      | Some obj \<Rightarrow> Inl (Error None (ErrExpectElements env) (DResult (Get ''value'' obj))))"
  by (induction objs arbitrary: acc) (auto simp: Let_def split: option.splits)

text \<open>
  Claim C2. In \<^verbatim>\<open>ElementsByJSE\<close>, when the evaluation answers with a result: if its
  subtype is not \<^verbatim>\<open>"array"\<close>, the call fails with the \<^verbatim>\<open>ErrExpectElements\<close> error. If it
  is an array with an object id and its properties are enumerated, then, the entries
  named \<^verbatim>\<open>"__proto__"\<close> and \<^verbatim>\<open>"length"\<close> left out: when every value is of subtype
  \<^verbatim>\<open>"node"\<close> the call returns one Element per property, in the order of enumeration,
  each with the object id of its property's value; when some value is not, the call fails
  with the \<^verbatim>\<open>ErrExpectElements\<close> error carrying such a value, and returns no list.
\<close>

theorem ElementsByJSE_result:
  assumes ev: "EvalE env p False thisID js params s = Some (Inr res, p1, s1)"
  shows "(String (Get ''subtype'' (Get ''result'' res)) \<noteq> ''array'' \<longrightarrow>
            ElementsByJSE env p thisID js params s =
              Some (Inl (Error None (ErrExpectElements env) (DResult (Get ''result'' res))), p1, s1)) \<and>
         (\<forall>list s2 props.
            String (Get ''subtype'' (Get ''result'' res)) = ''array'' \<and>
            String (Get ''objectId'' (Get ''result'' res)) \<noteq> [] \<and>
            Call env p1 ''Runtime.getProperties''
              (Some [''objectId'' \<mapsto> JString (String (Get ''objectId'' (Get ''result'' res))),
                     ''ownProperties'' \<mapsto> JTrue]) s1 = (Inr list, s2) \<and>
            props = filter (\<lambda>obj. String (Get ''name'' obj) \<noteq> ''__proto__'' \<and>
                                   String (Get ''name'' obj) \<noteq> ''length'')
                      (Array (Get ''result'' list)) \<longrightarrow>
            ((\<forall>obj \<in> set props. String (Get ''subtype'' (Get ''value'' obj)) = ''node'') \<longrightarrow>
               (\<exists>els. ElementsByJSE env p thisID js params s =
                        Some (Inr els, p1, ReleaseObject env p1 res s2) \<and>
                      length els = length props \<and>
                      map ObjectID els =
                        map (\<lambda>obj. String (Get ''objectId'' (Get ''value'' obj))) props)) \<and>
            ((\<exists>obj \<in> set props. String (Get ''subtype'' (Get ''value'' obj)) \<noteq> ''node'') \<longrightarrow>
               (\<exists>obj \<in> set props.
                  String (Get ''subtype'' (Get ''value'' obj)) \<noteq> ''node'' \<and>
                  ElementsByJSE env p thisID js params s =
                    Some (Inl (Error None (ErrExpectElements env) (DResult (Get ''value'' obj))),
                          p1, ReleaseObject env p1 res s2))))"
proof -
  let ?val = "Get ''result'' res"
  let ?keep = "\<lambda>obj. String (Get ''name'' obj) \<noteq> ''__proto__'' \<and> String (Get ''name'' obj) \<noteq> ''length''"
  let ?bad = "\<lambda>obj. String (Get ''subtype'' (Get ''value'' obj)) \<noteq> ''node''"
  have a: "ElementsByJSE env p thisID js params s =
      Some (Inl (Error None (ErrExpectElements env) (DResult ?val)), p1, s1)"
    if "String (Get ''subtype'' ?val) \<noteq> ''array''"
    using that by (simp add: ElementsByJSE_def ev Let_def)
  have run: "ElementsByJSE env p thisID js params s =
      Some (ElementsByJSE_loop env p1 (Array (Get ''result'' list)) [], p1, ReleaseObject env p1 res s2)"
    if "String (Get ''subtype'' ?val) = ''array''" "String (Get ''objectId'' ?val) \<noteq> []"
      "Call env p1 ''Runtime.getProperties''
              (Some [''objectId'' \<mapsto> JString (String (Get ''objectId'' ?val)),
                     ''ownProperties'' \<mapsto> JTrue]) s1 = (Inr list, s2)"
    for list s2
    using that by (simp add: ElementsByJSE_def ev Let_def)
  have good: "\<exists>els. ElementsByJSE_loop env p1 objs [] = Inr els \<and>
                length els = length (filter ?keep objs) \<and>
                map ObjectID els =
                  map (\<lambda>obj. String (Get ''objectId'' (Get ''value'' obj))) (filter ?keep objs)"
    if "\<forall>obj \<in> set (filter ?keep objs). \<not> ?bad obj" for objs
  proof -
    from that have "find ?bad (filter ?keep objs) = None"
      by (auto simp: find_None_iff)
    then show ?thesis
      by (simp add: ElementsByJSE_loop_find[of env p1 objs "[]"] comp_def)
  qed
  have bad: "\<exists>obj \<in> set (filter ?keep objs). ?bad obj \<and>
               ElementsByJSE_loop env p1 objs [] =
                 Inl (Error None (ErrExpectElements env) (DResult (Get ''value'' obj)))"
    if "\<exists>obj \<in> set (filter ?keep objs). ?bad obj" for objs
  proof -
    from that obtain obj where f: "find ?bad (filter ?keep objs) = Some obj"
      by (cases "find ?bad (filter ?keep objs)") (auto simp: find_None_iff)
    from find_Some_set[OF this] have "obj \<in> set (filter ?keep objs)" "?bad obj"
      by blast+
    with f show ?thesis
      by (intro bexI[of _ obj]) (simp_all add: ElementsByJSE_loop_find[of env p1 objs "[]"])
  qed
  show ?thesis
  proof (intro conjI allI impI)
    assume "String (Get ''subtype'' ?val) \<noteq> ''array''"
    then show "ElementsByJSE env p thisID js params s =
      Some (Inl (Error None (ErrExpectElements env) (DResult ?val)), p1, s1)" by (rule a)
  next
    fix list s2 props
    assume h: "String (Get ''subtype'' ?val) = ''array'' \<and>
            String (Get ''objectId'' ?val) \<noteq> [] \<and>
            Call env p1 ''Runtime.getProperties''
              (Some [''objectId'' \<mapsto> JString (String (Get ''objectId'' ?val)),
                     ''ownProperties'' \<mapsto> JTrue]) s1 = (Inr list, s2) \<and>
            props = filter ?keep (Array (Get ''result'' list))"
      and all: "\<forall>obj \<in> set props. String (Get ''subtype'' (Get ''value'' obj)) = ''node''"
    from h have r: "ElementsByJSE env p thisID js params s =
      Some (ElementsByJSE_loop env p1 (Array (Get ''result'' list)) [], p1, ReleaseObject env p1 res s2)"
      by (intro run) simp_all
    from h all good[of "Array (Get ''result'' list)"]
    show "\<exists>els. ElementsByJSE env p thisID js params s =
                        Some (Inr els, p1, ReleaseObject env p1 res s2) \<and>
                      length els = length props \<and>
                      map ObjectID els =
                        map (\<lambda>obj. String (Get ''objectId'' (Get ''value'' obj))) props"
      unfolding r by auto
  next
    fix list s2 props
    assume h: "String (Get ''subtype'' ?val) = ''array'' \<and>
            String (Get ''objectId'' ?val) \<noteq> [] \<and>
            Call env p1 ''Runtime.getProperties''
              (Some [''objectId'' \<mapsto> JString (String (Get ''objectId'' ?val)),
                     ''ownProperties'' \<mapsto> JTrue]) s1 = (Inr list, s2) \<and>
            props = filter ?keep (Array (Get ''result'' list))"
      and ex: "\<exists>obj \<in> set props. String (Get ''subtype'' (Get ''value'' obj)) \<noteq> ''node''"
    from h have r: "ElementsByJSE env p thisID js params s =
      Some (ElementsByJSE_loop env p1 (Array (Get ''result'' list)) [], p1, ReleaseObject env p1 res s2)"
      by (intro run) simp_all
    from h ex bad[of "Array (Get ''result'' list)"]
    show "\<exists>obj \<in> set props.
                  String (Get ''subtype'' (Get ''value'' obj)) \<noteq> ''node'' \<and>
                  ElementsByJSE env p thisID js params s =
                    Some (Inl (Error None (ErrExpectElements env) (DResult (Get ''value'' obj))),
                          p1, ReleaseObject env p1 res s2)"
      unfolding r by auto
  qed
qed

theorem ElementsByJSE_result_witness:
  "(\<exists>els. map_option fst (ElementsByJSE
        (test_env [Inr array_answer,
                   Inr (properties_answer [node_property ''0'' ''n1'', node_property ''1'' ''n2'',
                                           length_property, proto_property]),
                   Inr None] (Inr None))
        page0 [] ''() => document.querySelectorAll(`div`)'' [] state0) = Some (Inr els) \<and>
      map ObjectID els = [''n1'', ''n2'']) \<and>
   map_option fst (ElementsByJSE
        (test_env [Inr array_answer,
                   Inr (properties_answer [node_property ''0'' ''n1'', text_property, length_property]),
                   Inr None] (Inr None))
        page0 [] ''() => [document.body, 1]'' [] state0) =
     Some (Inl (Error None ''expect js to return an array of elements''
                  (DResult (Some (JObject [(''type'', JString ''string''), (''value'', JString ''x'')]))))) \<and>
   map_option fst (ElementsByJSE (test_env [Inr number_answer] (Inr None)) page0 [] ''() => 42'' [] state0) =
     Some (Inl (Error None ''expect js to return an array of elements''
                  (DResult (Get ''result'' number_answer))))"
proof -
  let ?keep = "\<lambda>obj. String (Get ''name'' obj) \<noteq> ''__proto__'' \<and> String (Get ''name'' obj) \<noteq> ''length''"
  have sub: "String (Get ''subtype'' (Get ''result'' array_answer)) = ''array''"
    and oid: "String (Get ''objectId'' (Get ''result'' array_answer)) \<noteq> []"
    and noex: "\<not> Exists (Get ''exceptionDetails'' array_answer)"
    by (simp_all add: Get_def String_def Exists_def array_answer_def)
  \<comment> \<open>every kept property is a node\<close>
  let ?list1 = "properties_answer [node_property ''0'' ''n1'', node_property ''1'' ''n2'',
                                           length_property, proto_property]"
  let ?env1 = "test_env [Inr array_answer, Inr ?list1, Inr None] (Inr None)"
  let ?js1 = "''() => document.querySelectorAll(`div`)''"
  obtain s1 where ev1: "EvalE ?env1 page0 False [] ?js1 [] state0 = Some (Inr array_answer, page0, s1)"
    and w1: "world s1 = 1"
    using EvalE_test_env[of state0 "[Inr array_answer, Inr ?list1, Inr None]" array_answer "Inr None" ?js1 "[]"] noex
    by (auto simp: state0_def)
  obtain s2 where gp1: "Call ?env1 page0 ''Runtime.getProperties''
              (Some [''objectId'' \<mapsto> JString (String (Get ''objectId'' (Get ''result'' array_answer))),
                     ''ownProperties'' \<mapsto> JTrue]) s1 = (Inr ?list1, s2)"
    using Call_test_env[of s1 "[Inr array_answer, Inr ?list1, Inr None]" "Inr None" page0] w1
    by fastforce
  have props1: "filter ?keep (Array (Get ''result'' ?list1)) =
      [Some (node_property ''0'' ''n1''), Some (node_property ''1'' ''n2'')]"
    by (simp add: Array_def Get_def String_def properties_answer_def node_property_def
        length_property_def proto_property_def)
  note T1 = ElementsByJSE_result[OF ev1, THEN conjunct2, THEN spec[where x="?list1"],
      THEN spec[where x=s2], THEN spec[where x="filter ?keep (Array (Get ''result'' ?list1))"],
      THEN mp, OF conjI[OF sub conjI[OF oid conjI[OF gp1 refl]]], THEN conjunct1]
  have a: "\<exists>els. map_option fst (ElementsByJSE ?env1 page0 [] ?js1 [] state0) = Some (Inr els) \<and>
      map ObjectID els = [''n1'', ''n2'']"
    using T1 unfolding props1
    by (auto simp: Get_def String_def node_property_def)
  \<comment> \<open>one kept property is not a node\<close>
  let ?list2 = "properties_answer [node_property ''0'' ''n1'', text_property, length_property]"
  let ?env2 = "test_env [Inr array_answer, Inr ?list2, Inr None] (Inr None)"
  let ?js2 = "''() => [document.body, 1]''"
  obtain t1 where ev2: "EvalE ?env2 page0 False [] ?js2 [] state0 = Some (Inr array_answer, page0, t1)"
    and v1: "world t1 = 1"
    using EvalE_test_env[of state0 "[Inr array_answer, Inr ?list2, Inr None]" array_answer "Inr None" ?js2 "[]"] noex
    by (auto simp: state0_def)
  obtain t2 where gp2: "Call ?env2 page0 ''Runtime.getProperties''
              (Some [''objectId'' \<mapsto> JString (String (Get ''objectId'' (Get ''result'' array_answer))),
                     ''ownProperties'' \<mapsto> JTrue]) t1 = (Inr ?list2, t2)"
    using Call_test_env[of t1 "[Inr array_answer, Inr ?list2, Inr None]" "Inr None" page0] v1
    by fastforce
  have props2: "filter ?keep (Array (Get ''result'' ?list2)) =
      [Some (node_property ''0'' ''n1''), Some text_property]"
    by (simp add: Array_def Get_def String_def properties_answer_def node_property_def
        length_property_def text_property_def)
  note T2 = ElementsByJSE_result[OF ev2, THEN conjunct2, THEN spec[where x="?list2"],
      THEN spec[where x=t2], THEN spec[where x="filter ?keep (Array (Get ''result'' ?list2))"],
      THEN mp, OF conjI[OF sub conjI[OF oid conjI[OF gp2 refl]]], THEN conjunct2]
  have b: "map_option fst (ElementsByJSE ?env2 page0 [] ?js2 [] state0) =
     Some (Inl (Error None ''expect js to return an array of elements''
                  (DResult (Some (JObject [(''type'', JString ''string''), (''value'', JString ''x'')])))))"
    using T2 unfolding props2
    by (auto simp: Get_def String_def node_property_def text_property_def test_env_def)
  \<comment> \<open>the result is no array\<close>
  let ?env3 = "test_env [Inr number_answer] (Inr None)"
  obtain u1 where ev3: "EvalE ?env3 page0 False [] ''() => 42'' [] state0 = Some (Inr number_answer, page0, u1)"
    using EvalE_test_env[of state0 "[Inr number_answer]" number_answer "Inr None" "''() => 42''" "[]"]
    by (auto simp: state0_def Exists_def Get_def number_answer_def)
  have c: "map_option fst (ElementsByJSE ?env3 page0 [] ''() => 42'' [] state0) =
     Some (Inl (Error None ''expect js to return an array of elements''
                  (DResult (Get ''result'' number_answer))))"
    using ElementsByJSE_result[OF ev3, THEN conjunct1]
    by (simp add: Get_def String_def number_answer_def test_env_def)
  show ?thesis using a b c by blast
qed

section \<open>Attachment\<close>

text \<open>
  Claim C7. \<^verbatim>\<open>initSession\<close> first sends \<^verbatim>\<open>Target.attachToTarget\<close> with \<^verbatim>\<open>flatten\<close> set. If
  that fails nothing else happens. Otherwise the session id of the answer is stored in the
  page and \<^verbatim>\<open>Page.enable\<close> is sent under it; whether that call succeeds or fails, the
  returned page holds the new session id. After a successful \<^verbatim>\<open>Page.enable\<close>, a nil
  viewport sends nothing more, and a configured one is sent by
  \<^verbatim>\<open>Emulation.setDeviceMetricsOverride\<close>, whose error is the result.
\<close>

theorem initSession_steps:
  assumes attach: "Call env p ''Target.attachToTarget''
             (Some [''targetId'' \<mapsto> JString (TargetID p), ''flatten'' \<mapsto> JTrue]) s = (r1, s1)"
  shows "calls s1 = calls s @ [\<lparr>SessionID_msg = SessionID p, Method = ''Target.attachToTarget'',
            Params = Some [''targetId'' \<mapsto> JString (TargetID p), ''flatten'' \<mapsto> JTrue]\<rparr>] \<and>
         (\<forall>err. r1 = Inl err \<longrightarrow> initSession env p s = (Some err, p, s1)) \<and>
         (\<forall>obj r2 s2. r1 = Inr obj \<and>
            Call env (p\<lparr>SessionID := String (Get ''sessionId'' obj)\<rparr>) ''Page.enable'' None s1 = (r2, s2) \<longrightarrow>
            calls s2 = calls s1 @ [\<lparr>SessionID_msg = String (Get ''sessionId'' obj),
                                     Method = ''Page.enable'', Params = None\<rparr>] \<and>
            fst (snd (initSession env p s)) = p\<lparr>SessionID := String (Get ''sessionId'' obj)\<rparr> \<and>
            (\<forall>err. r2 = Inl err \<longrightarrow>
               initSession env p s = (Some err, p\<lparr>SessionID := String (Get ''sessionId'' obj)\<rparr>, s2)) \<and>
            (\<forall>x. r2 = Inr x \<and> Viewport (browser p) = None \<longrightarrow>
               initSession env p s = (None, p\<lparr>SessionID := String (Get ''sessionId'' obj)\<rparr>, s2)) \<and>
            (\<forall>x v r3 s3. r2 = Inr x \<and> Viewport (browser p) = Some v \<and>
               Call env (p\<lparr>SessionID := String (Get ''sessionId'' obj)\<rparr>)
                 ''Emulation.setDeviceMetricsOverride'' (Some v) s2 = (r3, s3) \<longrightarrow>
               calls s3 = calls s2 @ [\<lparr>SessionID_msg = String (Get ''sessionId'' obj),
                                        Method = ''Emulation.setDeviceMetricsOverride'',
                                        Params = Some v\<rparr>] \<and>
               initSession env p s =
                 (case r3 of Inl err \<Rightarrow> Some err | Inr _ \<Rightarrow> None,
                  p\<lparr>SessionID := String (Get ''sessionId'' obj)\<rparr>, s3)))"
proof -
  have a: "calls s1 = calls s @ [\<lparr>SessionID_msg = SessionID p, Method = ''Target.attachToTarget'',
            Params = Some [''targetId'' \<mapsto> JString (TargetID p), ''flatten'' \<mapsto> JTrue]\<rparr>]"
    using Call_calls[OF attach] .
  have b: "initSession env p s = (Some err, p, s1)" if "r1 = Inl err" for err
    using that by (simp add: initSession_def attach)
  have c: "calls s2 = calls s1 @ [\<lparr>SessionID_msg = String (Get ''sessionId'' obj),
                                     Method = ''Page.enable'', Params = None\<rparr>] \<and>
            fst (snd (initSession env p s)) = p\<lparr>SessionID := String (Get ''sessionId'' obj)\<rparr> \<and>
            (\<forall>err. r2 = Inl err \<longrightarrow>
               initSession env p s = (Some err, p\<lparr>SessionID := String (Get ''sessionId'' obj)\<rparr>, s2)) \<and>
            (\<forall>x. r2 = Inr x \<and> Viewport (browser p) = None \<longrightarrow>
               initSession env p s = (None, p\<lparr>SessionID := String (Get ''sessionId'' obj)\<rparr>, s2)) \<and>
            (\<forall>x v r3 s3. r2 = Inr x \<and> Viewport (browser p) = Some v \<and>
               Call env (p\<lparr>SessionID := String (Get ''sessionId'' obj)\<rparr>)
                 ''Emulation.setDeviceMetricsOverride'' (Some v) s2 = (r3, s3) \<longrightarrow>
               calls s3 = calls s2 @ [\<lparr>SessionID_msg = String (Get ''sessionId'' obj),
                                        Method = ''Emulation.setDeviceMetricsOverride'',
                                        Params = Some v\<rparr>] \<and>
               initSession env p s =
                 (case r3 of Inl err \<Rightarrow> Some err | Inr _ \<Rightarrow> None,
                  p\<lparr>SessionID := String (Get ''sessionId'' obj)\<rparr>, s3))"
    if r1: "r1 = Inr obj"
      and en: "Call env (p\<lparr>SessionID := String (Get ''sessionId'' obj)\<rparr>) ''Page.enable'' None s1 = (r2, s2)"
    for obj r2 s2
  proof -
    let ?p1 = "p\<lparr>SessionID := String (Get ''sessionId'' obj)\<rparr>"
    have c1: "calls s2 = calls s1 @ [\<lparr>SessionID_msg = String (Get ''sessionId'' obj),
                                     Method = ''Page.enable'', Params = None\<rparr>]"
      using Call_calls[OF en] by simp
    have c2: "fst (snd (initSession env p s)) = ?p1"
      using attach r1 en
      by (simp add: initSession_def Let_def split: sum.splits prod.splits)
    have c3: "initSession env p s = (Some err, ?p1, s2)" if "r2 = Inl err" for err
      using attach r1 en that by (simp add: initSession_def Let_def)
    have c4: "initSession env p s = (None, ?p1, s2)" if "r2 = Inr x" "Viewport (browser p) = None" for x
      using attach r1 en that by (simp add: initSession_def Let_def SetViewportE_def)
    have c5: "calls s3 = calls s2 @ [\<lparr>SessionID_msg = String (Get ''sessionId'' obj),
                                        Method = ''Emulation.setDeviceMetricsOverride'',
                                        Params = Some v\<rparr>] \<and>
               initSession env p s = (case r3 of Inl err \<Rightarrow> Some err | Inr _ \<Rightarrow> None, ?p1, s3)"
      if "r2 = Inr x" "Viewport (browser p) = Some v"
        "Call env ?p1 ''Emulation.setDeviceMetricsOverride'' (Some v) s2 = (r3, s3)" for x v r3 s3
      using attach r1 en that Call_calls[OF that(3)]
      by (simp add: initSession_def Let_def SetViewportE_def split: sum.splits)
    show ?thesis using c1 c2 c3 c4 c5 by blast
  qed
  show ?thesis using a b c by blast
qed

theorem initSession_steps_witness:
  "(case initSession (test_env [Inr attach_answer, Inl (CdpError 1 ''enable failed'')] (Inr None))
           (fresh_page\<lparr>browser := \<lparr>Viewport = Some viewport0\<rparr>\<rparr>) state0 of
      (e, p', s') \<Rightarrow>
        e = Some (CdpError 1 ''enable failed'') \<and> SessionID p' = ''S9'' \<and>
        map Method (calls s') = [''Target.attachToTarget'', ''Page.enable''] \<and>
        map SessionID_msg (calls s') = [[], ''S9'']) \<and>
   (case initSession (test_env [Inr attach_answer, Inr None, Inr None] (Inr None)) fresh_page state0 of
      (e, p', s') \<Rightarrow>
        e = None \<and> SessionID p' = ''S9'' \<and>
        map Method (calls s') = [''Target.attachToTarget'', ''Page.enable'']) \<and>
   (case initSession (test_env [Inr attach_answer, Inr None, Inr None] (Inr None))
           (fresh_page\<lparr>browser := \<lparr>Viewport = Some viewport0\<rparr>\<rparr>) state0 of
      (e, p', s') \<Rightarrow>
        e = None \<and> SessionID p' = ''S9'' \<and>
        map Method (calls s') =
          [''Target.attachToTarget'', ''Page.enable'', ''Emulation.setDeviceMetricsOverride''])"
proof -
  have sid: "String (Get ''sessionId'' attach_answer) = ''S9''"
    by (simp add: Get_def String_def attach_answer_def)
  have c0: "calls state0 = []" by (simp add: state0_def)
  have scenario:
    "\<exists>s1 s2. Call (test_env (Inr attach_answer # r2 # rest) (Inr None)) p ''Target.attachToTarget''
             (Some [''targetId'' \<mapsto> JString (TargetID p), ''flatten'' \<mapsto> JTrue]) state0
               = (Inr attach_answer, s1) \<and>
             Call (test_env (Inr attach_answer # r2 # rest) (Inr None))
               (p\<lparr>SessionID := String (Get ''sessionId'' attach_answer)\<rparr>) ''Page.enable'' None s1 = (r2, s2) \<and>
             world s2 = 2" for r2 rest p
    by (simp add: Call_def test_env_def script_call_def state0_def)
  \<comment> \<open>enabling the Page domain fails\<close>
  let ?envA = "test_env [Inr attach_answer, Inl (CdpError 1 ''enable failed'')] (Inr None)"
  let ?pA = "fresh_page\<lparr>browser := \<lparr>Viewport = Some viewport0\<rparr>\<rparr>"
  obtain s1 s2 where at: "Call ?envA ?pA ''Target.attachToTarget''
             (Some [''targetId'' \<mapsto> JString (TargetID ?pA), ''flatten'' \<mapsto> JTrue]) state0
               = (Inr attach_answer, s1)"
    and en: "Call ?envA (?pA\<lparr>SessionID := String (Get ''sessionId'' attach_answer)\<rparr>) ''Page.enable'' None s1
               = (Inl (CdpError 1 ''enable failed''), s2)"
    using scenario[of "Inl (CdpError 1 ''enable failed'')" "[]" ?pA] by blast
  note A = initSession_steps[OF at]
  from A have A1: "calls s1 = calls state0 @ [\<lparr>SessionID_msg = SessionID ?pA, Method = ''Target.attachToTarget'',
            Params = Some [''targetId'' \<mapsto> JString (TargetID ?pA), ''flatten'' \<mapsto> JTrue]\<rparr>]"
    by blast
  from A en have A2: "calls s2 = calls s1 @ [\<lparr>SessionID_msg = String (Get ''sessionId'' attach_answer),
                                     Method = ''Page.enable'', Params = None\<rparr>]"
    and A3: "initSession ?envA ?pA state0 =
        (Some (CdpError 1 ''enable failed''), ?pA\<lparr>SessionID := String (Get ''sessionId'' attach_answer)\<rparr>, s2)"
    by blast+
  have a: "(case initSession ?envA ?pA state0 of
      (e, p', s') \<Rightarrow>
        e = Some (CdpError 1 ''enable failed'') \<and> SessionID p' = ''S9'' \<and>
        map Method (calls s') = [''Target.attachToTarget'', ''Page.enable''] \<and>
        map SessionID_msg (calls s') = [[], ''S9''])"
    unfolding A3 by (simp add: A2 A1 c0 sid fresh_page_def)
  \<comment> \<open>no viewport is configured\<close>
  let ?envB = "test_env [Inr attach_answer, Inr None, Inr None] (Inr None)"
  obtain t1 t2 where at: "Call ?envB fresh_page ''Target.attachToTarget''
             (Some [''targetId'' \<mapsto> JString (TargetID fresh_page), ''flatten'' \<mapsto> JTrue]) state0
               = (Inr attach_answer, t1)"
    and en: "Call ?envB (fresh_page\<lparr>SessionID := String (Get ''sessionId'' attach_answer)\<rparr>) ''Page.enable'' None t1
               = (Inr None, t2)"
    using scenario[of "Inr None" "[Inr None]" fresh_page] by blast
  note B = initSession_steps[OF at]
  from B have B1: "calls t1 = calls state0 @ [\<lparr>SessionID_msg = SessionID fresh_page, Method = ''Target.attachToTarget'',
            Params = Some [''targetId'' \<mapsto> JString (TargetID fresh_page), ''flatten'' \<mapsto> JTrue]\<rparr>]"
    by blast
  have nv: "Viewport (browser fresh_page) = None" by (simp add: fresh_page_def page0_def)
  from B en nv have B2: "calls t2 = calls t1 @ [\<lparr>SessionID_msg = String (Get ''sessionId'' attach_answer),
                                     Method = ''Page.enable'', Params = None\<rparr>]"
    and B3: "initSession ?envB fresh_page state0 =
        (None, fresh_page\<lparr>SessionID := String (Get ''sessionId'' attach_answer)\<rparr>, t2)"
    by blast+
  have b: "(case initSession ?envB fresh_page state0 of
      (e, p', s') \<Rightarrow>
        e = None \<and> SessionID p' = ''S9'' \<and>
        map Method (calls s') = [''Target.attachToTarget'', ''Page.enable''])"
    unfolding B3 by (simp add: B2 B1 c0 sid)
  \<comment> \<open>a viewport is configured\<close>
  obtain u1 u2 where at: "Call ?envB ?pA ''Target.attachToTarget''
             (Some [''targetId'' \<mapsto> JString (TargetID ?pA), ''flatten'' \<mapsto> JTrue]) state0
               = (Inr attach_answer, u1)"
    and en: "Call ?envB (?pA\<lparr>SessionID := String (Get ''sessionId'' attach_answer)\<rparr>) ''Page.enable'' None u1
               = (Inr None, u2)"
    and w2: "world u2 = 2"
    using scenario[of "Inr None" "[Inr None]" ?pA] by blast
  obtain u3 where vp: "Call ?envB (?pA\<lparr>SessionID := String (Get ''sessionId'' attach_answer)\<rparr>)
      ''Emulation.setDeviceMetricsOverride'' (Some viewport0) u2 = (Inr None, u3)"
    using Call_test_env[of u2 "[Inr attach_answer, Inr None, Inr None]" "Inr None"] w2 by fastforce
  note C = initSession_steps[OF at]
  from C have C1: "calls u1 = calls state0 @ [\<lparr>SessionID_msg = SessionID ?pA, Method = ''Target.attachToTarget'',
            Params = Some [''targetId'' \<mapsto> JString (TargetID ?pA), ''flatten'' \<mapsto> JTrue]\<rparr>]"
    by blast
  have sv: "Viewport (browser ?pA) = Some viewport0" by simp
  from C en have C2: "calls u2 = calls u1 @ [\<lparr>SessionID_msg = String (Get ''sessionId'' attach_answer),
                                     Method = ''Page.enable'', Params = None\<rparr>]"
    by blast
  from C en sv vp have C3: "calls u3 = calls u2 @ [\<lparr>SessionID_msg = String (Get ''sessionId'' attach_answer),
                                        Method = ''Emulation.setDeviceMetricsOverride'',
                                        Params = Some viewport0\<rparr>] \<and>
               initSession ?envB ?pA state0 =
                 (case Inr None :: error + JSONResult of Inl err \<Rightarrow> Some err | Inr _ \<Rightarrow> None,
                  ?pA\<lparr>SessionID := String (Get ''sessionId'' attach_answer)\<rparr>, u3)"
    by blast
  have c: "(case initSession ?envB ?pA state0 of
      (e, p', s') \<Rightarrow>
        e = None \<and> SessionID p' = ''S9'' \<and>
        map Method (calls s') =
          [''Target.attachToTarget'', ''Page.enable'', ''Emulation.setDeviceMetricsOverride''])"
    unfolding C3[THEN conjunct2] using C3[THEN conjunct1] by (simp add: C2 C1 c0 sid)
  show ?thesis using a b c by blast
qed

section \<open>Properties of the chained configuration\<close>

lemma WithTimeout_neq: "WithTimeout c d \<noteq> c"
  by (induction c) auto

text \<open>
  Claim C9, as the code has it. For a page in the store, \<^verbatim>\<open>Ctx\<close> returns a fresh cell that
  holds the page with the given context in place of its own, and leaves every cell of the
  store as it was. \<^verbatim>\<open>Timeout\<close> returns a fresh cell with the same target, session, context
  and frame identifiers and a context derived from, and different from, the original's;
  it leaves every other cell as it was, and of the original page it changes exactly the
  field \<^verbatim>\<open>timeoutCancel\<close>, set to the cancel function of the new context, which the new
  page carries too.
\<close>

theorem Ctx_Timeout_frame:
  assumes "p < length h"
  shows "(\<exists>h'. Ctx p c h = Inr (length h, h') \<and> length h' = Suc (length h) \<and>
               (\<forall>a < length h. h' ! a = h ! a) \<and>
               h' ! length h = (h ! p)\<lparr>ctx := c\<rparr>) \<and>
         (\<exists>h'. Timeout p d h = Inr (length h, h') \<and> length h' = Suc (length h) \<and>
               (\<forall>a < length h. a \<noteq> p \<longrightarrow> h' ! a = h ! a) \<and>
               h' ! p = (h ! p)\<lparr>timeoutCancel := Some (CancelOf (WithTimeout (ctx (h ! p)) d))\<rparr> \<and>
               h' ! length h = (h' ! p)\<lparr>ctx := WithTimeout (ctx (h ! p)) d\<rparr> \<and>
               TargetID (h' ! length h) = TargetID (h ! p) \<and>
               SessionID (h' ! length h) = SessionID (h ! p) \<and>
               ContextID (h' ! length h) = ContextID (h ! p) \<and>
               FrameID (h' ! length h) = FrameID (h ! p) \<and>
               ctx (h' ! length h) \<noteq> ctx (h ! p))"
  using assms
  by (auto simp: Ctx_def Timeout_def Let_def nth_append nth_list_update WithTimeout_neq)

theorem Ctx_Timeout_frame_witness:
  "Ctx 0 (Background 7) [page0] = Inr (1, [page0, page0\<lparr>ctx := Background 7\<rparr>]) \<and>
   Timeout 0 5000000000 [page0] =
     Inr (1, [page0\<lparr>timeoutCancel := Some (CancelOf (WithTimeout (Background 0) 5000000000))\<rparr>,
              page0\<lparr>timeoutCancel := Some (CancelOf (WithTimeout (Background 0) 5000000000)),
                     ctx := WithTimeout (Background 0) 5000000000\<rparr>])"
proof -
  have "(0::nat) < length [page0]" by simp
  from Ctx_Timeout_frame[OF this, of "Background 7" 5000000000]
  show ?thesis
    by (auto simp: page0_def nth_Cons' length_Suc_conv split: if_splits)
qed

text \<open>
  The claim as it is written fails for \<^verbatim>\<open>Timeout\<close>: the original page's \<^verbatim>\<open>timeoutCancel\<close>
  is not what it was.
\<close>

theorem Timeout_counterexample:
  "(case Timeout 0 5000000000 [page0] of
      Inl x \<Rightarrow> False
    | Inr (q, h') \<Rightarrow> timeoutCancel (h' ! 0) \<noteq> timeoutCancel ([page0] ! 0))"
  by (simp add: Timeout_def Ctx_def page0_def Let_def)

section \<open>Iframe evaluation\<close>

lemma initIsolatedWorld_ctx:
  "initIsolatedWorld env p s = (e, p', s') \<Longrightarrow> ctx p' = ctx p"
  by (auto simp: initIsolatedWorld_def split: prod.splits sum.splits)

lemma evalIframe_r0:
  "Retry c sl (evalIframe_fn env params) (r0, p) s = Retry c sl (evalIframe_fn env params) (r1, p) s"
  by (simp only: Retry.simps[of _ _ _ "(r0, p)" s] Retry.simps[of _ _ _ "(r1, p)" s])
    (simp add: evalIframe_fn_def)

lemma evalIframe_stale:
  assumes call: "Call env p ''Runtime.evaluate''
                   (Some (params(''contextId'' \<mapsto> JNumber (ContextID p)))) s =
                 (Inl (CdpError (- 32000) msg), s1)"
  shows "evalIframe env p params s =
           (case initIsolatedWorld env p s1 of
              (e, p', s2) \<Rightarrow>
                (case sleep (BackoffSleeper env (30 * Millisecond) (3 * Second) None) (ctx p) s2 of
                   (Some err, s3) \<Rightarrow> Some (Inl err, p', s3)
                 | (None, s3) \<Rightarrow> evalIframe env p' params s3))"
proof -
  let ?sl = "sleep (BackoffSleeper env (30 * Millisecond) (3 * Second) None)"
  obtain e p' s2 where iw: "initIsolatedWorld env p s1 = (e, p', s2)"
    by (cases "initIsolatedWorld env p s1")
  have c: "ctx p' = ctx p" using initIsolatedWorld_ctx[OF iw] .
  have fn: "evalIframe_fn env params (Inr None, p) s =
      Some ((False, None), (Inl (CdpError (- 32000) msg), p'), s2)"
    by (simp add: evalIframe_fn_def call iw)
  obtain x s3 where sl: "?sl (ctx p) s2 = (x, s3)" by (cases "?sl (ctx p) s2")
  have r: "Retry (ctx p) ?sl (evalIframe_fn env params) (Inr None, p) s =
      (case x of Some err \<Rightarrow> Some (Some err, (Inl (CdpError (- 32000) msg), p'), s3)
       | None \<Rightarrow> Retry (ctx p) ?sl (evalIframe_fn env params) (Inl (CdpError (- 32000) msg), p') s3)"
    by (simp only: Retry.simps[of _ _ _ "(Inr None, p)" s]) (simp add: fn sl split: option.splits)
  show ?thesis
  proof (cases x)
    case None
    with r sl iw show ?thesis
      by (simp add: evalIframe_def Let_def c
          evalIframe_r0[of _ _ env params "Inl (CdpError (- 32000) msg)" p' s3 "Inr None"])
  next
    case (Some err)
    with r sl iw show ?thesis
      by (simp add: evalIframe_def Let_def)
  qed
qed

lemma evalIframe_done:
  assumes call: "Call env p ''Runtime.evaluate''
                   (Some (params(''contextId'' \<mapsto> JNumber (ContextID p)))) s = (r, s1)"
    and other: "\<And>msg. r \<noteq> Inl (CdpError (- 32000) msg)"
  shows "evalIframe env p params s = Some (r, p, s1)"
proof -
  let ?sl = "sleep (BackoffSleeper env (30 * Millisecond) (3 * Second) None)"
  have fn: "evalIframe_fn env params (Inr None, p) s =
      Some ((True, case r of Inl err \<Rightarrow> Some err | Inr _ \<Rightarrow> None), (r, p), s1)"
    using other by (auto simp: evalIframe_fn_def call split: sum.splits error.splits)
  have "Retry (ctx p) ?sl (evalIframe_fn env params) (Inr None, p) s =
      Some (case r of Inl err \<Rightarrow> Some err | Inr _ \<Rightarrow> None, (r, p), s1)"
    by (simp only: Retry.simps[of _ _ _ "(Inr None, p)" s]) (simp add: fn)
  then show ?thesis
    by (simp add: evalIframe_def Let_def split: sum.splits)
qed

lemma initIsolatedWorld_ok:
  "Call env p ''Page.createIsolatedWorld'' (Some [''frameId'' \<mapsto> JString (FrameID p)]) s = (Inr frame, s') \<Longrightarrow>
   initIsolatedWorld env p s = (None, p\<lparr>ContextID := Int_json (Get ''executionContextId'' frame)\<rparr>, s')"
  by (simp add: initIsolatedWorld_def)

lemma initIsolatedWorld_failed:
  "Call env p ''Page.createIsolatedWorld'' (Some [''frameId'' \<mapsto> JString (FrameID p)]) s = (Inl err, s') \<Longrightarrow>
   initIsolatedWorld env p s = (Some err, p, s')"
  by (simp add: initIsolatedWorld_def)

text \<open>
  Claim C3, as the code has it. In \<^verbatim>\<open>evalIframe\<close>, name the outcome of the evaluation
  call, of the \<^verbatim>\<open>Page.createIsolatedWorld\<close> call that would follow it, and of the backoff
  sleep after that. An outcome of the evaluation other than the error with code \<open>-32000\<close>
  is returned at once, with no further call. On that error the isolated world is
  recreated and the backoff sleeper runs; if the sleeper fails, its error is returned;
  otherwise the evaluation starts over, with the new context id in the page when the
  recreation succeeded, and with the page as it was when the recreation failed, whose
  error is dropped.
\<close>

theorem evalIframe_recovery:
  assumes call: "Call env p ''Runtime.evaluate''
                   (Some (params(''contextId'' \<mapsto> JNumber (ContextID p)))) s = (r, s1)"
    and world: "Call env p ''Page.createIsolatedWorld''
                   (Some [''frameId'' \<mapsto> JString (FrameID p)]) s1 = (r', s2)"
    and wait: "sleep (BackoffSleeper env (30 * Millisecond) (3 * Second) None) (ctx p) s2 = (e, s3)"
  shows "((\<forall>msg. r \<noteq> Inl (CdpError (- 32000) msg)) \<longrightarrow>
            evalIframe env p params s = Some (r, p, s1)) \<and>
         (\<forall>msg err. r = Inl (CdpError (- 32000) msg) \<and> e = Some err \<longrightarrow>
            (\<exists>p'. evalIframe env p params s = Some (Inl err, p', s3))) \<and>
         (\<forall>msg frame. r = Inl (CdpError (- 32000) msg) \<and> e = None \<and> r' = Inr frame \<longrightarrow>
            evalIframe env p params s =
              evalIframe env (p\<lparr>ContextID := Int_json (Get ''executionContextId'' frame)\<rparr>) params s3) \<and>
         (\<forall>msg err. r = Inl (CdpError (- 32000) msg) \<and> e = None \<and> r' = Inl err \<longrightarrow>
            evalIframe env p params s = evalIframe env p params s3)"
proof (intro conjI allI impI)
  assume "\<forall>msg. r \<noteq> Inl (CdpError (- 32000) msg)"
  then show "evalIframe env p params s = Some (r, p, s1)"
    using evalIframe_done[OF call] by blast
next
  fix msg err
  assume h: "r = Inl (CdpError (- 32000) msg) \<and> e = Some err"
  obtain x p' where iw: "initIsolatedWorld env p s1 = (x, p', s2)"
    using world by (cases r') (auto simp: initIsolatedWorld_def)
  from h show "\<exists>p'. evalIframe env p params s = Some (Inl err, p', s3)"
    using evalIframe_stale[OF call[unfolded h[THEN conjunct1]]] iw wait
    by simp
next
  fix msg frame
  assume h: "r = Inl (CdpError (- 32000) msg) \<and> e = None \<and> r' = Inr frame"
  then have iw: "initIsolatedWorld env p s1 =
      (None, p\<lparr>ContextID := Int_json (Get ''executionContextId'' frame)\<rparr>, s2)"
    using initIsolatedWorld_ok[of env p s1 frame s2] world by simp
  from h show "evalIframe env p params s =
      evalIframe env (p\<lparr>ContextID := Int_json (Get ''executionContextId'' frame)\<rparr>) params s3"
    using evalIframe_stale[OF call[unfolded h[THEN conjunct1]]] iw wait
    by simp
next
  fix msg err
  assume h: "r = Inl (CdpError (- 32000) msg) \<and> e = None \<and> r' = Inl err"
  then have iw: "initIsolatedWorld env p s1 = (Some err, p, s2)"
    using initIsolatedWorld_failed[of env p s1 err s2] world by simp
  from h show "evalIframe env p params s = evalIframe env p params s3"
    using evalIframe_stale[OF call[unfolded h[THEN conjunct1]]] iw wait
    by simp
qed

theorem evalIframe_recovery_witness:
  "(case evalIframe (test_env [Inl stale, Inr frame_answer, Inr value_answer] (Inr None))
           frame0 params0 state0 of
      None \<Rightarrow> False
    | Some (r, p', s') \<Rightarrow>
        r = Inr value_answer \<and> ContextID p' = 5 \<and>
        map Method (calls s') =
          [''Runtime.evaluate'', ''Page.createIsolatedWorld'', ''Runtime.evaluate''] \<and>
        map contextId_of (calls s') = [Some (JNumber 1), None, Some (JNumber 5)]) \<and>
   (case evalIframe (test_env [Inl (CdpError (- 32601) ''method not found'')] (Inr None))
           frame0 params0 state0 of
      None \<Rightarrow> False
    | Some (r, p', s') \<Rightarrow>
        r = Inl (CdpError (- 32601) ''method not found'') \<and>
        map Method (calls s') = [''Runtime.evaluate''])"
proof -
  let ?A = "[Inl stale, Inr frame_answer, Inr value_answer]"
  let ?env = "test_env ?A (Inr None)"
  let ?bo = "BackoffSleeper ?env (30 * Millisecond) (3 * Second) None"
  let ?p5 = "frame0\<lparr>ContextID := Int_json (Get ''executionContextId'' frame_answer)\<rparr>"
  have cid: "Int_json (Get ''executionContextId'' frame_answer) = 5"
    by (simp add: Int_json_def Get_def frame_answer_def)
  have c0: "calls state0 = []" "world state0 = 0" by (simp_all add: state0_def)
  obtain s1 where call1: "Call ?env frame0 ''Runtime.evaluate''
        (Some (params0(''contextId'' \<mapsto> JNumber (ContextID frame0)))) state0 = (Inl stale, s1)"
    and w1: "world s1 = 1"
    and t1: "calls s1 = [\<lparr>SessionID_msg = SessionID frame0, Method = ''Runtime.evaluate'',
               Params = Some (params0(''contextId'' \<mapsto> JNumber (ContextID frame0)))\<rparr>]"
    using Call_test_env_calls[of state0 ?A "Inr None" frame0 "''Runtime.evaluate''"
        "Some (params0(''contextId'' \<mapsto> JNumber (ContextID frame0)))"] c0
    by auto
  obtain s2 where call2: "Call ?env frame0 ''Page.createIsolatedWorld''
        (Some [''frameId'' \<mapsto> JString (FrameID frame0)]) s1 = (Inr frame_answer, s2)"
    and w2: "world s2 = 2"
    and t2: "calls s2 = calls s1 @ [\<lparr>SessionID_msg = SessionID frame0, Method = ''Page.createIsolatedWorld'',
               Params = Some [''frameId'' \<mapsto> JString (FrameID frame0)]\<rparr>]"
    using Call_test_env_calls[of s1 ?A "Inr None" frame0 "''Page.createIsolatedWorld''"
        "Some [''frameId'' \<mapsto> JString (FrameID frame0)]"] w1
    by auto
  have wait2: "sleep ?bo (ctx frame0) s2 = (None, s2)" by (rule sleep_test_env)
  have first: "evalIframe ?env frame0 params0 state0 = evalIframe ?env ?p5 params0 s2"
    using evalIframe_recovery[OF call1 call2 wait2]
    by (simp add: stale_def)
  obtain s3 where call3: "Call ?env ?p5 ''Runtime.evaluate''
        (Some (params0(''contextId'' \<mapsto> JNumber (ContextID ?p5)))) s2 = (Inr value_answer, s3)"
    and w3: "world s3 = 3"
    and t3: "calls s3 = calls s2 @ [\<lparr>SessionID_msg = SessionID ?p5, Method = ''Runtime.evaluate'',
               Params = Some (params0(''contextId'' \<mapsto> JNumber (ContextID ?p5)))\<rparr>]"
    using Call_test_env_calls[of s2 ?A "Inr None" ?p5 "''Runtime.evaluate''"
        "Some (params0(''contextId'' \<mapsto> JNumber (ContextID ?p5)))"] w2
    by auto
  obtain r4 s4 where call4: "Call ?env ?p5 ''Page.createIsolatedWorld''
        (Some [''frameId'' \<mapsto> JString (FrameID ?p5)]) s3 = (r4, s4)"
    by (cases "Call ?env ?p5 ''Page.createIsolatedWorld''
        (Some [''frameId'' \<mapsto> JString (FrameID ?p5)]) s3")
  have wait4: "sleep ?bo (ctx ?p5) s4 = (None, s4)" by (rule sleep_test_env)
  have second: "evalIframe ?env ?p5 params0 s2 = Some (Inr value_answer, ?p5, s3)"
    using evalIframe_recovery[OF call3 call4 wait4] by simp
  have a: "(case evalIframe ?env frame0 params0 state0 of
      None \<Rightarrow> False
    | Some (r, p', s') \<Rightarrow>
        r = Inr value_answer \<and> ContextID p' = 5 \<and>
        map Method (calls s') =
          [''Runtime.evaluate'', ''Page.createIsolatedWorld'', ''Runtime.evaluate''] \<and>
        map contextId_of (calls s') = [Some (JNumber 1), None, Some (JNumber 5)])"
    unfolding first second
    by (simp add: t3 t2 t1 cid contextId_of_def frame0_def page0_def)
  let ?B = "[Inl (CdpError (- 32601) ''method not found'')]"
  let ?envB = "test_env ?B (Inr None)"
  obtain u1 where callB: "Call ?envB frame0 ''Runtime.evaluate''
        (Some (params0(''contextId'' \<mapsto> JNumber (ContextID frame0)))) state0 =
          (Inl (CdpError (- 32601) ''method not found''), u1)"
    and tB: "calls u1 = [\<lparr>SessionID_msg = SessionID frame0, Method = ''Runtime.evaluate'',
               Params = Some (params0(''contextId'' \<mapsto> JNumber (ContextID frame0)))\<rparr>]"
    using Call_test_env_calls[of state0 ?B "Inr None" frame0 "''Runtime.evaluate''"
        "Some (params0(''contextId'' \<mapsto> JNumber (ContextID frame0)))"] c0
    by auto
  obtain rB u2 where worldB: "Call ?envB frame0 ''Page.createIsolatedWorld''
        (Some [''frameId'' \<mapsto> JString (FrameID frame0)]) u1 = (rB, u2)"
    by (cases "Call ?envB frame0 ''Page.createIsolatedWorld''
        (Some [''frameId'' \<mapsto> JString (FrameID frame0)]) u1")
  have waitB: "sleep (BackoffSleeper ?envB (30 * Millisecond) (3 * Second) None) (ctx frame0) u2 = (None, u2)"
    by (rule sleep_test_env)
  have "evalIframe ?envB frame0 params0 state0 =
      Some (Inl (CdpError (- 32601) ''method not found''), frame0, u1)"
    using evalIframe_recovery[OF callB worldB waitB] by simp
  then have b: "(case evalIframe ?envB frame0 params0 state0 of
      None \<Rightarrow> False
    | Some (r, p', s') \<Rightarrow>
        r = Inl (CdpError (- 32601) ''method not found'') \<and>
        map Method (calls s') = [''Runtime.evaluate''])"
    by (simp add: tB)
  show ?thesis using a b by blast
qed

text \<open>
  The claim as it is written fails where the recreation fails: here the transport answers
  the evaluation with the stale-context error, \<^verbatim>\<open>Page.createIsolatedWorld\<close> with an error,
  and the second evaluation with a value, and \<^verbatim>\<open>evalIframe\<close> returns the value.
\<close>

theorem evalIframe_counterexample:
  "(case evalIframe (test_env [Inl stale, Inl (CdpError (- 32602) ''no frame''), Inr value_answer] (Inr None))
           frame0 params0 state0 of
      None \<Rightarrow> False
    | Some (r, p', s') \<Rightarrow>
        r = Inr value_answer \<and> ContextID p' = ContextID frame0 \<and>
        map Method (calls s') =
          [''Runtime.evaluate'', ''Page.createIsolatedWorld'', ''Runtime.evaluate'']) \<and>
   fst (initIsolatedWorld
          (test_env [Inl stale, Inl (CdpError (- 32602) ''no frame''), Inr value_answer] (Inr None))
          frame0 (state0\<lparr>world := 1\<rparr>)) = Some (CdpError (- 32602) ''no frame'')"
proof -
  let ?A = "[Inl stale, Inl (CdpError (- 32602) ''no frame''), Inr value_answer]"
  let ?env = "test_env ?A (Inr None)"
  let ?bo = "BackoffSleeper ?env (30 * Millisecond) (3 * Second) None"
  have c0: "calls state0 = []" "world state0 = 0" by (simp_all add: state0_def)
  obtain s1 where call1: "Call ?env frame0 ''Runtime.evaluate''
        (Some (params0(''contextId'' \<mapsto> JNumber (ContextID frame0)))) state0 = (Inl stale, s1)"
    and w1: "world s1 = 1"
    and t1: "calls s1 = [\<lparr>SessionID_msg = SessionID frame0, Method = ''Runtime.evaluate'',
               Params = Some (params0(''contextId'' \<mapsto> JNumber (ContextID frame0)))\<rparr>]"
    using Call_test_env_calls[of state0 ?A "Inr None" frame0 "''Runtime.evaluate''"
        "Some (params0(''contextId'' \<mapsto> JNumber (ContextID frame0)))"] c0
    by auto
  obtain s2 where call2: "Call ?env frame0 ''Page.createIsolatedWorld''
        (Some [''frameId'' \<mapsto> JString (FrameID frame0)]) s1 = (Inl (CdpError (- 32602) ''no frame''), s2)"
    and w2: "world s2 = 2"
    and t2: "calls s2 = calls s1 @ [\<lparr>SessionID_msg = SessionID frame0, Method = ''Page.createIsolatedWorld'',
               Params = Some [''frameId'' \<mapsto> JString (FrameID frame0)]\<rparr>]"
    using Call_test_env_calls[of s1 ?A "Inr None" frame0 "''Page.createIsolatedWorld''"
        "Some [''frameId'' \<mapsto> JString (FrameID frame0)]"] w1
    by auto
  obtain s3 where call3: "Call ?env frame0 ''Runtime.evaluate''
        (Some (params0(''contextId'' \<mapsto> JNumber (ContextID frame0)))) s2 = (Inr value_answer, s3)"
    and t3: "calls s3 = calls s2 @ [\<lparr>SessionID_msg = SessionID frame0, Method = ''Runtime.evaluate'',
               Params = Some (params0(''contextId'' \<mapsto> JNumber (ContextID frame0)))\<rparr>]"
    using Call_test_env_calls[of s2 ?A "Inr None" frame0 "''Runtime.evaluate''"
        "Some (params0(''contextId'' \<mapsto> JNumber (ContextID frame0)))"] w2
    by auto
  have iw: "initIsolatedWorld ?env frame0 s1 = (Some (CdpError (- 32602) ''no frame''), frame0, s2)"
    using initIsolatedWorld_failed[OF call2] .
  have "evalIframe ?env frame0 params0 state0 = evalIframe ?env frame0 params0 s2"
    using evalIframe_stale[OF call1[unfolded stale_def]] iw
    by (simp add: sleep_test_env stale_def)
  also have "\<dots> = Some (Inr value_answer, frame0, s3)"
    using evalIframe_done[OF call3] by simp
  finally have a: "(case evalIframe ?env frame0 params0 state0 of
      None \<Rightarrow> False
    | Some (r, p', s') \<Rightarrow>
        r = Inr value_answer \<and> ContextID p' = ContextID frame0 \<and>
        map Method (calls s') =
          [''Runtime.evaluate'', ''Page.createIsolatedWorld'', ''Runtime.evaluate''])"
    by (simp add: t3 t2 t1)
  have b: "fst (initIsolatedWorld ?env frame0 (state0\<lparr>world := 1\<rparr>)) = Some (CdpError (- 32602) ''no frame'')"
    by (simp add: initIsolatedWorld_def Call_def test_env_def script_call_def)
  show ?thesis using a b by blast
qed

section \<open>Properties of the download capture\<close>

lemma GetDownloadFileE_body_calls:
  "GetDownloadFileE_body env p s2 = (ret, s6) \<Longrightarrow>
   \<exists>new. calls s6 = calls s2 @ new \<and> (\<forall>m \<in> set new. Method m = ''Fetch.fulfillRequest'')"
  by (auto simp: GetDownloadFileE_body_def Let_def
      split: prod.splits sum.splits dest!: Call_calls)

lemma GetDownloadFileE_started:
  assumes b: "Call env p ''Page.setDownloadBehavior''
                (Some [''behavior'' \<mapsto> JString ''allow'', ''downloadPath'' \<mapsto> JString dir]) s = (Inr x1, s1)"
    and e: "Call env p ''Fetch.enable''
              (if pattern \<noteq> []
               then Some [''patterns'' \<mapsto> JArray [JObject [(''urlPattern'', JString pattern)]]]
               else None) s1 = (Inr x2, s2)"
  shows "GetDownloadFileE env p dir pattern s =
           (fst (GetDownloadFileE_body env p s2),
            snd (Call env p ''Fetch.disable'' None (snd (GetDownloadFileE_body env p s2))))"
  using b e
  by (simp add: GetDownloadFileE_def Let_def split: prod.splits)

lemma filter_is_disable_last:
  assumes "cs = new @ [\<lparr>SessionID_msg = sid, Method = ''Fetch.disable'', Params = None\<rparr>]"
    and "\<forall>m \<in> set new. Method m \<noteq> ''Fetch.disable''"
  shows "length (filter is_disable cs) = 1"
proof -
  from assms(2) have "filter is_disable new = []"
    by (simp add: filter_empty_conv is_disable_def)
  with assms(1) show ?thesis by (simp add: is_disable_def)
qed

text \<open>
  Claim C4, as the code has it. Name the outcomes of the first two calls of
  \<^verbatim>\<open>GetDownloadFileE\<close>. If \<^verbatim>\<open>Page.setDownloadBehavior\<close> fails, or it succeeds and
  \<^verbatim>\<open>Fetch.enable\<close> fails, the call returns that error and sends nothing after the failed
  call, so no \<^verbatim>\<open>Fetch.disable\<close>. If both succeed, \<^verbatim>\<open>Fetch.disable\<close> is sent exactly once,
  as the last message of the invocation; the returned values are those fixed before it
  is sent, whatever it answers: the error of the wait when the wait for the paused
  request fails, and header, body and the error of the fulfilment when the fulfilment
  fails.
\<close>

theorem GetDownloadFileE_disable:
  assumes b: "Call env p ''Page.setDownloadBehavior''
                (Some [''behavior'' \<mapsto> JString ''allow'', ''downloadPath'' \<mapsto> JString dir]) s = (r1, s1)"
    and e: "Call env p ''Fetch.enable''
              (if pattern \<noteq> []
               then Some [''patterns'' \<mapsto> JArray [JObject [(''urlPattern'', JString pattern)]]]
               else None) s1 = (r2, s2)"
  shows "(\<forall>err. r1 = Inl err \<longrightarrow>
            GetDownloadFileE env p dir pattern s = ((None, None, Some err), s1) \<and>
            (\<exists>m. calls s1 = calls s @ [m] \<and> Method m = ''Page.setDownloadBehavior'')) \<and>
         (\<forall>x1 err. r1 = Inr x1 \<and> r2 = Inl err \<longrightarrow>
            GetDownloadFileE env p dir pattern s = ((None, None, Some err), s2) \<and>
            (\<exists>m1 m2. calls s2 = calls s @ [m1, m2] \<and> Method m1 = ''Page.setDownloadBehavior'' \<and>
                      Method m2 = ''Fetch.enable'')) \<and>
         (\<forall>x1 x2. r1 = Inr x1 \<and> r2 = Inr x2 \<longrightarrow>
            fst (GetDownloadFileE env p dir pattern s) = fst (GetDownloadFileE_body env p s2) \<and>
            (\<exists>new. calls (snd (GetDownloadFileE env p dir pattern s)) =
                      calls s @ new @ [\<lparr>SessionID_msg = SessionID p, Method = ''Fetch.disable'',
                                         Params = None\<rparr>] \<and>
                    (\<forall>m \<in> set new. Method m \<noteq> ''Fetch.disable'')) \<and>
            (\<forall>err w. WaitEventE env (ctx p) ''Fetch.requestPaused'' (world s2) = (Inl err, w) \<longrightarrow>
               fst (GetDownloadFileE env p dir pattern s) = (None, None, Some err)) \<and>
            (\<forall>msg w3 res w4 body w5 err s6.
               WaitEventE env (ctx p) ''Fetch.requestPaused'' (world s2) = (Inr msg, w3) \<and>
               ReqResponse env (build_request (Get ''request'' msg)) w3 = (Inr res, w4) \<and>
               ReqBytes env (build_request (Get ''request'' msg)) w4 = (Inr body, w5) \<and>
               Call env p ''Fetch.fulfillRequest''
                 (Some [''requestId'' \<mapsto> JString (String (Get ''requestId'' msg)),
                        ''responseCode'' \<mapsto> JNumber (StatusCode res),
                        ''responseHeaders'' \<mapsto> JArray (response_headers (Header res)),
                        ''body'' \<mapsto> JString (EncodeToString env body)])
                 (s2\<lparr>world := w5\<rparr>) = (Inl err, s6) \<longrightarrow>
               fst (GetDownloadFileE env p dir pattern s) = (Some (Header res), Some body, Some err)))"
proof (intro conjI allI impI)
  fix err assume "r1 = Inl err"
  then show "GetDownloadFileE env p dir pattern s = ((None, None, Some err), s1)"
    using b by (simp add: GetDownloadFileE_def Let_def)
  show "\<exists>m. calls s1 = calls s @ [m] \<and> Method m = ''Page.setDownloadBehavior''"
    using Call_calls[OF b] by simp
next
  fix x1 err assume h: "r1 = Inr x1 \<and> r2 = Inl err"
  then show "GetDownloadFileE env p dir pattern s = ((None, None, Some err), s2)"
    using b e by (simp add: GetDownloadFileE_def Let_def)
  show "\<exists>m1 m2. calls s2 = calls s @ [m1, m2] \<and> Method m1 = ''Page.setDownloadBehavior'' \<and>
                      Method m2 = ''Fetch.enable''"
    using Call_calls[OF b] Call_calls[OF e] by simp
next
  fix x1 x2 assume h: "r1 = Inr x1 \<and> r2 = Inr x2"
  note st = GetDownloadFileE_started[OF b[unfolded h[THEN conjunct1]] e[unfolded h[THEN conjunct2]]]
  show "fst (GetDownloadFileE env p dir pattern s) = fst (GetDownloadFileE_body env p s2)"
    by (simp add: st)
  obtain ret s6 where body: "GetDownloadFileE_body env p s2 = (ret, s6)"
    by (cases "GetDownloadFileE_body env p s2")
  from GetDownloadFileE_body_calls[OF body] obtain new where
    new: "calls s6 = calls s2 @ new" "\<forall>m \<in> set new. Method m = ''Fetch.fulfillRequest''"
    by blast
  obtain r7 s7 where d: "Call env p ''Fetch.disable'' None s6 = (r7, s7)"
    by (cases "Call env p ''Fetch.disable'' None s6")
  have "calls (snd (GetDownloadFileE env p dir pattern s)) =
      calls s @ ([\<lparr>SessionID_msg = SessionID p, Method = ''Page.setDownloadBehavior'',
                    Params = Some [''behavior'' \<mapsto> JString ''allow'', ''downloadPath'' \<mapsto> JString dir]\<rparr>,
                  \<lparr>SessionID_msg = SessionID p, Method = ''Fetch.enable'',
                    Params = (if pattern \<noteq> []
                       then Some [''patterns'' \<mapsto> JArray [JObject [(''urlPattern'', JString pattern)]]]
                       else None)\<rparr>] @ new) @
        [\<lparr>SessionID_msg = SessionID p, Method = ''Fetch.disable'', Params = None\<rparr>]"
    using Call_calls[OF b] Call_calls[OF e] Call_calls[OF d] new(1)
    by (simp add: st body d)
  moreover have "\<forall>m \<in> set ([\<lparr>SessionID_msg = SessionID p, Method = ''Page.setDownloadBehavior'',
                    Params = Some [''behavior'' \<mapsto> JString ''allow'', ''downloadPath'' \<mapsto> JString dir]\<rparr>,
                  \<lparr>SessionID_msg = SessionID p, Method = ''Fetch.enable'',
                    Params = (if pattern \<noteq> []
                       then Some [''patterns'' \<mapsto> JArray [JObject [(''urlPattern'', JString pattern)]]]
                       else None)\<rparr>] @ new). Method m \<noteq> ''Fetch.disable''"
    using new(2) by auto
  ultimately show "\<exists>new. calls (snd (GetDownloadFileE env p dir pattern s)) =
                      calls s @ new @ [\<lparr>SessionID_msg = SessionID p, Method = ''Fetch.disable'',
                                         Params = None\<rparr>] \<and>
                    (\<forall>m \<in> set new. Method m \<noteq> ''Fetch.disable'')"
    by blast
  {
    fix err w assume "WaitEventE env (ctx p) ''Fetch.requestPaused'' (world s2) = (Inl err, w)"
    then show "fst (GetDownloadFileE env p dir pattern s) = (None, None, Some err)"
      by (simp add: st GetDownloadFileE_body_def)
  }
  {
    fix msg w3 res w4 body w5 err s6
    assume "WaitEventE env (ctx p) ''Fetch.requestPaused'' (world s2) = (Inr msg, w3) \<and>
               ReqResponse env (build_request (Get ''request'' msg)) w3 = (Inr res, w4) \<and>
               ReqBytes env (build_request (Get ''request'' msg)) w4 = (Inr body, w5) \<and>
               Call env p ''Fetch.fulfillRequest''
                 (Some [''requestId'' \<mapsto> JString (String (Get ''requestId'' msg)),
                        ''responseCode'' \<mapsto> JNumber (StatusCode res),
                        ''responseHeaders'' \<mapsto> JArray (response_headers (Header res)),
                        ''body'' \<mapsto> JString (EncodeToString env body)])
                 (s2\<lparr>world := w5\<rparr>) = (Inl err, s6)"
    then show "fst (GetDownloadFileE env p dir pattern s) = (Some (Header res), Some body, Some err)"
      by (simp add: st GetDownloadFileE_body_def Let_def)
  }
qed

theorem GetDownloadFileE_disable_witness:
  "fst (GetDownloadFileE
          (test_env [Inr None, Inr None, Inl (CdpError 2 ''fulfill failed''),
                     Inl (CdpError 3 ''disable failed'')] (Inr paused_event))
          page0 ''tmp/rod-downloads'' ''*.png'' state0) =
     (Some [(''Content-Type'', [''image/png''])], Some [1, 2, 3], Some (CdpError 2 ''fulfill failed'')) \<and>
   length (filter is_disable (calls (snd (GetDownloadFileE
          (test_env [Inr None, Inr None, Inl (CdpError 2 ''fulfill failed''),
                     Inl (CdpError 3 ''disable failed'')] (Inr paused_event))
          page0 ''tmp/rod-downloads'' ''*.png'' state0)))) = 1 \<and>
   fst (GetDownloadFileE
          (test_env [Inr None, Inr None, Inl (CdpError 3 ''disable failed'')]
             (Inl (GoError ''context deadline exceeded'')))
          page0 ''tmp/rod-downloads'' [] state0) =
     (None, None, Some (GoError ''context deadline exceeded'')) \<and>
   length (filter is_disable (calls (snd (GetDownloadFileE
          (test_env [Inr None, Inr None, Inl (CdpError 3 ''disable failed'')]
             (Inl (GoError ''context deadline exceeded'')))
          page0 ''tmp/rod-downloads'' [] state0)))) = 1"
proof -
  have c0: "calls state0 = []" "world state0 = 0" by (simp_all add: state0_def)
  \<comment> \<open>the fulfilment fails, and so does the disabling\<close>
  let ?A = "[Inr None, Inr None, Inl (CdpError 2 ''fulfill failed''), Inl (CdpError 3 ''disable failed'')]"
  let ?env = "test_env ?A (Inr paused_event)"
  let ?dir = "''tmp/rod-downloads''"
  let ?G = "GetDownloadFileE ?env page0 ?dir ''*.png'' state0"
  obtain s1 where b: "Call ?env page0 ''Page.setDownloadBehavior''
        (Some [''behavior'' \<mapsto> JString ''allow'', ''downloadPath'' \<mapsto> JString ?dir]) state0 = (Inr None, s1)"
    and w1: "world s1 = 1"
    using Call_test_env_calls[of state0 ?A "Inr paused_event" page0 "''Page.setDownloadBehavior''"] c0
    by fastforce
  obtain s2 where e: "Call ?env page0 ''Fetch.enable''
        (if ''*.png'' \<noteq> []
         then Some [''patterns'' \<mapsto> JArray [JObject [(''urlPattern'', JString ''*.png'')]]]
         else None) s1 = (Inr None, s2)"
    and w2: "world s2 = 2"
    using Call_test_env_calls[of s1 ?A "Inr paused_event" page0 "''Fetch.enable''"] w1
    by fastforce
  note T = GetDownloadFileE_disable[OF b e, THEN conjunct2, THEN conjunct2, THEN spec, THEN spec,
      THEN mp, OF conjI[OF refl refl]]
  let ?req = "build_request (Get ''request'' paused_event)"
  let ?res = "\<lparr>StatusCode = 200, Header = [(''Content-Type'', [''image/png''])]\<rparr>"
  have wt: "WaitEventE ?env (ctx page0) ''Fetch.requestPaused'' (world s2) = (Inr paused_event, 2)"
    and rr: "ReqResponse ?env ?req 2 = (Inr ?res, 2)"
    and rb: "ReqBytes ?env ?req 2 = (Inr [1, 2, 3], 2)"
    by (simp_all add: test_env_def w2)
  obtain s6 where f: "Call ?env page0 ''Fetch.fulfillRequest''
                 (Some [''requestId'' \<mapsto> JString (String (Get ''requestId'' paused_event)),
                        ''responseCode'' \<mapsto> JNumber (StatusCode ?res),
                        ''responseHeaders'' \<mapsto> JArray (response_headers (Header ?res)),
                        ''body'' \<mapsto> JString (EncodeToString ?env [1, 2, 3])])
                 (s2\<lparr>world := 2\<rparr>) = (Inl (CdpError 2 ''fulfill failed''), s6)"
    using Call_test_env_calls[of "s2\<lparr>world := 2\<rparr>" ?A "Inr paused_event" page0 "''Fetch.fulfillRequest''"]
    by fastforce
  have a1: "fst ?G =
     (Some [(''Content-Type'', [''image/png''])], Some [1, 2, 3], Some (CdpError 2 ''fulfill failed''))"
    using T[THEN conjunct2, THEN conjunct2, THEN conjunct2, THEN spec, THEN spec, THEN spec,
        THEN spec, THEN spec, THEN spec, THEN spec, THEN spec, THEN mp,
        OF conjI[OF wt conjI[OF rr conjI[OF rb f]]]]
    by simp
  from T[THEN conjunct2, THEN conjunct1] obtain new where
    "calls (snd ?G) = calls state0 @ new @
        [\<lparr>SessionID_msg = SessionID page0, Method = ''Fetch.disable'', Params = None\<rparr>]"
    "\<forall>m \<in> set new. Method m \<noteq> ''Fetch.disable''"
    by blast
  then have a2: "length (filter is_disable (calls (snd ?G))) = 1"
    using filter_is_disable_last[of "calls (snd ?G)" new] by (simp add: c0)
  \<comment> \<open>the wait for the paused request fails\<close>
  let ?B = "[Inr None, Inr None, Inl (CdpError 3 ''disable failed'')]"
  let ?envB = "test_env ?B (Inl (GoError ''context deadline exceeded''))"
  let ?H = "GetDownloadFileE ?envB page0 ?dir [] state0"
  obtain t1 where b: "Call ?envB page0 ''Page.setDownloadBehavior''
        (Some [''behavior'' \<mapsto> JString ''allow'', ''downloadPath'' \<mapsto> JString ?dir]) state0 = (Inr None, t1)"
    and v1: "world t1 = 1"
    using Call_test_env_calls[of state0 ?B "Inl (GoError ''context deadline exceeded'')" page0
        "''Page.setDownloadBehavior''"] c0
    by fastforce
  obtain t2 where e: "Call ?envB page0 ''Fetch.enable''
        (if [] \<noteq> ([] :: string)
         then Some [''patterns'' \<mapsto> JArray [JObject [(''urlPattern'', JString [])]]]
         else None) t1 = (Inr None, t2)"
    using Call_test_env_calls[of t1 ?B "Inl (GoError ''context deadline exceeded'')" page0 "''Fetch.enable''"] v1
    by fastforce
  note U = GetDownloadFileE_disable[OF b e, THEN conjunct2, THEN conjunct2, THEN spec, THEN spec,
      THEN mp, OF conjI[OF refl refl]]
  have wtB: "WaitEventE ?envB (ctx page0) ''Fetch.requestPaused'' (world t2) =
      (Inl (GoError ''context deadline exceeded''), world t2)"
    by (simp add: test_env_def)
  have b1: "fst ?H = (None, None, Some (GoError ''context deadline exceeded''))"
    using U[THEN conjunct2, THEN conjunct2, THEN conjunct1, THEN spec, THEN spec, THEN mp, OF wtB] .
  from U[THEN conjunct2, THEN conjunct1] obtain new where
    "calls (snd ?H) = calls state0 @ new @
        [\<lparr>SessionID_msg = SessionID page0, Method = ''Fetch.disable'', Params = None\<rparr>]"
    "\<forall>m \<in> set new. Method m \<noteq> ''Fetch.disable''"
    by blast
  then have b2: "length (filter is_disable (calls (snd ?H))) = 1"
    using filter_is_disable_last[of "calls (snd ?H)" new] by (simp add: c0)
  show ?thesis using a1 a2 b1 b2 by blast
qed

text \<open>
  The claim as it is written fails where \<^verbatim>\<open>Page.setDownloadBehavior\<close> fails: the
  invocation sends no \<^verbatim>\<open>Fetch.disable\<close>.
\<close>

theorem GetDownloadFileE_counterexample:
  "fst (GetDownloadFileE (test_env [Inl (CdpError 1 ''not allowed'')] (Inr paused_event))
          page0 ''tmp/rod-downloads'' ''*.png'' state0) =
     (None, None, Some (CdpError 1 ''not allowed'')) \<and>
   filter is_disable (calls (snd (GetDownloadFileE
          (test_env [Inl (CdpError 1 ''not allowed'')] (Inr paused_event))
          page0 ''tmp/rod-downloads'' ''*.png'' state0))) = []"
  by (simp add: GetDownloadFileE_def Call_def test_env_def script_call_def state0_def is_disable_def)

section \<open>The evaluation request\<close>

text \<open>A property that the first attempt establishes and that the operation and the
  sleeper keep holds when the loop ends.\<close>

lemma Retry_established:
  assumes run: "Retry c sl fn v s = Some y"
    and first: "\<And>r v1 s1. fn v s = Some (r, v1, s1) \<Longrightarrow> I v1 s1"
    and F: "\<And>v s r v1 s1. I v s \<Longrightarrow> fn v s = Some (r, v1, s1) \<Longrightarrow> I v1 s1"
    and S: "\<And>v s e s1. I v s \<Longrightarrow> sl c s = (e, s1) \<Longrightarrow> I v s1"
  shows "I (fst (snd y)) (snd (snd y))"
proof -
  from run obtain stop err v1 s1 where fn: "fn v s = Some ((stop, err), v1, s1)"
    by (subst (asm) Retry.simps) (cases "fn v s"; auto)
  from first[OF fn] have I1: "I v1 s1" .
  show ?thesis
  proof (cases "stop \<or> err \<noteq> None")
    case True
    with run fn have "y = (err, v1, s1)"
      by (subst (asm) Retry.simps) auto
    with I1 show ?thesis by simp
  next
    case False
    obtain e s2 where sl: "sl c s1 = (e, s2)" by (cases "sl c s1")
    from S[OF I1 sl] have I2: "I v1 s2" .
    show ?thesis
    proof (cases e)
      case None
      with run fn False sl have "Retry c sl fn v1 s2 = Some y"
        by (subst (asm) Retry.simps) simp
      then show ?thesis
      proof (rule Retry_invariant[where I = I])
        show "I v1 s2" by (rule I2)
      qed (erule (1) F, erule (1) S)
    next
      case (Some e')
      with run fn False sl have "y = (Some e', v1, s2)"
        by (subst (asm) Retry.simps) auto
      with I2 show ?thesis by simp
    qed
  qed
qed

lemma Page_but_ContextID:
  "q\<lparr>ContextID := c\<rparr> = p \<Longrightarrow> SessionID q = SessionID p \<and> ctx q = ctx p \<and> FrameID q = FrameID p"
  by (cases q) auto

lemma initIsolatedWorld_calls:
  "initIsolatedWorld env p s = (e, p', s') \<Longrightarrow>
   \<exists>m. calls s' = calls s @ [m] \<and> Method m = ''Page.createIsolatedWorld''"
  by (auto simp: initIsolatedWorld_def split: prod.splits sum.splits dest!: Call_calls)

lemma evalIframe_fn_calls:
  assumes "evalIframe_fn env params (r0, q) s = Some (x, (r, q'), s')"
  shows "\<exists>extra. calls s' = calls s @
            \<lparr>SessionID_msg = SessionID q, Method = ''Runtime.evaluate'',
              Params = Some (params(''contextId'' \<mapsto> JNumber (ContextID q)))\<rparr> # extra \<and>
          (\<forall>m \<in> set extra. Method m = ''Page.createIsolatedWorld'')"
proof -
  obtain r1 s1 where c: "Call env q ''Runtime.evaluate''
      (Some (params(''contextId'' \<mapsto> JNumber (ContextID q)))) s = (r1, s1)"
    by (cases "Call env q ''Runtime.evaluate''
      (Some (params(''contextId'' \<mapsto> JNumber (ContextID q)))) s")
  note t = Call_calls[OF c]
  show ?thesis
  proof (cases "\<exists>msg. r1 = Inl (CdpError (- 32000) msg)")
    case True
    then obtain msg where r1: "r1 = Inl (CdpError (- 32000) msg)" by blast
    obtain e q2 s2 where iw: "initIsolatedWorld env q s1 = (e, q2, s2)"
      by (cases "initIsolatedWorld env q s1")
    from assms c r1 iw have "s' = s2" by (simp add: evalIframe_fn_def)
    with initIsolatedWorld_calls[OF iw] t show ?thesis by auto
  next
    case False
    with assms c have "s' = s1"
      by (auto simp: evalIframe_fn_def split: sum.splits error.splits if_splits)
    with t show ?thesis by simp
  qed
qed

lemma sleep_calls: "sleep sl c s = (e, s') \<Longrightarrow> calls s' = calls s"
  by (auto simp: sleep_def split: prod.splits)

lemma evalIframe_calls:
  assumes ev: "evalIframe env p params s = Some (r, p', s')"
  shows "\<exists>rest. calls s' = calls s @
            \<lparr>SessionID_msg = SessionID p, Method = ''Runtime.evaluate'',
              Params = Some (params(''contextId'' \<mapsto> JNumber (ContextID p)))\<rparr> # rest \<and>
          (\<forall>m \<in> set rest. Method m = ''Runtime.evaluate'' \<longrightarrow>
             SessionID_msg m = SessionID p \<and>
             (\<exists>cid. Params m = Some (params(''contextId'' \<mapsto> JNumber cid))))"
proof -
  let ?m0 = "\<lparr>SessionID_msg = SessionID p, Method = ''Runtime.evaluate'',
              Params = Some (params(''contextId'' \<mapsto> JNumber (ContextID p)))\<rparr>"
  let ?shape = "\<lambda>m. Method m = ''Runtime.evaluate'' \<longrightarrow>
             SessionID_msg m = SessionID p \<and>
             (\<exists>cid. Params m = Some (params(''contextId'' \<mapsto> JNumber cid)))"
  let ?I = "\<lambda>(v :: (error + JSONResult) \<times> Page) (t :: 'a State).
      (snd v)\<lparr>ContextID := ContextID p\<rparr> = p \<and>
      (\<exists>rest. calls t = calls s @ ?m0 # rest \<and> (\<forall>m \<in> set rest. ?shape m))"
  let ?sl = "sleep (BackoffSleeper env (30 * Millisecond) (3 * Second) None)"
  from ev obtain e r1 where
    run: "Retry (ctx p) ?sl (evalIframe_fn env params) (Inr None, p) s = Some (e, (r1, p'), s')"
    by (auto simp: evalIframe_def Let_def split: option.splits prod.splits)
  have "?I (fst (snd (e, (r1, p'), s'))) (snd (snd (e, (r1, p'), s')))"
  proof (rule Retry_established[where I = ?I, OF run])
    fix x v1 s1
    assume fn: "evalIframe_fn env params (Inr None, p) s = Some (x, v1, s1)"
    obtain r2 q2 where v1: "v1 = (r2, q2)" by (cases v1)
    from evalIframe_fn_page[OF fn[unfolded v1]] have pg: "q2\<lparr>ContextID := ContextID p\<rparr> = p" .
    from evalIframe_fn_calls[OF fn[unfolded v1]] obtain extra where
      "calls s1 = calls s @ ?m0 # extra" "\<forall>m \<in> set extra. Method m = ''Page.createIsolatedWorld''"
      by blast
    then have "\<exists>rest. calls s1 = calls s @ ?m0 # rest \<and> (\<forall>m \<in> set rest. ?shape m)"
      by (intro exI[of _ extra]) auto
    with pg v1 show "?I v1 s1" by simp
  next
    fix v t x v1 s1
    assume inv: "?I v t" and fn: "evalIframe_fn env params v t = Some (x, v1, s1)"
    obtain r0 q where v: "v = (r0, q)" by (cases v)
    obtain r2 q2 where v1: "v1 = (r2, q2)" by (cases v1)
    from inv v have q: "q\<lparr>ContextID := ContextID p\<rparr> = p" by simp
    from Page_but_ContextID[OF q] have sid: "SessionID q = SessionID p" by blast
    from evalIframe_fn_page[OF fn[unfolded v v1]] have "q2\<lparr>ContextID := ContextID q\<rparr> = q" .
    with q have pg: "q2\<lparr>ContextID := ContextID p\<rparr> = p"
      by (metis Page.surjective Page.update_convs(5))
    from inv obtain rest where rest: "calls t = calls s @ ?m0 # rest" "\<forall>m \<in> set rest. ?shape m"
      by blast
    from evalIframe_fn_calls[OF fn[unfolded v v1]] obtain extra where
      ex: "calls s1 = calls t @
            \<lparr>SessionID_msg = SessionID q, Method = ''Runtime.evaluate'',
              Params = Some (params(''contextId'' \<mapsto> JNumber (ContextID q)))\<rparr> # extra"
        "\<forall>m \<in> set extra. Method m = ''Page.createIsolatedWorld''"
      by blast
    let ?rest' = "rest @ \<lparr>SessionID_msg = SessionID q, Method = ''Runtime.evaluate'',
              Params = Some (params(''contextId'' \<mapsto> JNumber (ContextID q)))\<rparr> # extra"
    have "calls s1 = calls s @ ?m0 # ?rest'" using rest(1) ex(1) by simp
    moreover have "\<forall>m \<in> set ?rest'. ?shape m"
      using rest(2) ex(2) sid by auto
    ultimately have "\<exists>rest. calls s1 = calls s @ ?m0 # rest \<and> (\<forall>m \<in> set rest. ?shape m)"
      by blast
    with pg v1 show "?I v1 s1" by simp
  next
    fix v t x s1
    assume inv: "?I v t" and sl: "?sl (ctx p) t = (x, s1)"
    from sleep_calls[OF sl] inv show "?I v s1" by simp
  qed
  then show ?thesis by simp
qed

text \<open>
  Claim C6. A global evaluation (\<^verbatim>\<open>eval\<close>, the path of \<^verbatim>\<open>EvalE\<close> for an empty \<^verbatim>\<open>thisID\<close>) that
  returns has first sent \<^verbatim>\<open>Runtime.evaluate\<close> with the expression
  \<^verbatim>\<open>SprintFnApply(js, jsArgs)\<close>, \<^verbatim>\<open>awaitPromise\<close> true and \<^verbatim>\<open>returnByValue\<close> as the caller
  asked, and nothing else; on an iframe page the request carries the page's context id
  as well, and every later \<^verbatim>\<open>Runtime.evaluate\<close> of the same evaluation has the same
  three fields and a context id. On a root page that is the only message. When the raw
  result has no exception, \<^verbatim>\<open>EvalE\<close> returns its \<^verbatim>\<open>result.value\<close> if the caller asked by
  value, and the raw result otherwise.
\<close>

theorem eval_request:
  fixes env :: "'w Env"
  defines "base \<equiv> \<lambda>(env :: 'w Env) byValue js jsArgs.
             [''expression'' \<mapsto> JString (SprintFnApply env js jsArgs),
              ''awaitPromise'' \<mapsto> JTrue,
              ''returnByValue'' \<mapsto> JBool byValue]"
  assumes ev: "eval env p byValue js jsArgs s = Some (r, p', s')"
  shows "(\<exists>rest. calls s' = calls s @
            \<lparr>SessionID_msg = SessionID p, Method = ''Runtime.evaluate'',
              Params = Some (if isIframe p
                             then (base env byValue js jsArgs)(''contextId'' \<mapsto> JNumber (ContextID p))
                             else base env byValue js jsArgs)\<rparr> # rest \<and>
            (\<not> isIframe p \<longrightarrow> rest = []) \<and>
            (\<forall>m \<in> set rest. Method m = ''Runtime.evaluate'' \<longrightarrow>
               SessionID_msg m = SessionID p \<and>
               (\<exists>cid. Params m = Some ((base env byValue js jsArgs)(''contextId'' \<mapsto> JNumber cid))))) \<and>
         (\<forall>res. r = Inr res \<and> \<not> Exists (Get ''exceptionDetails'' res) \<and> byValue \<longrightarrow>
            EvalE env p byValue [] js jsArgs s = Some (Inr (Get ''result.value'' res), p', s')) \<and>
         (\<forall>res. r = Inr res \<and> \<not> Exists (Get ''exceptionDetails'' res) \<and> \<not> byValue \<longrightarrow>
            EvalE env p byValue [] js jsArgs s = Some (Inr res, p', s'))"
proof (intro conjI)
  show "\<exists>rest. calls s' = calls s @
            \<lparr>SessionID_msg = SessionID p, Method = ''Runtime.evaluate'',
              Params = Some (if isIframe p
                             then (base env byValue js jsArgs)(''contextId'' \<mapsto> JNumber (ContextID p))
                             else base env byValue js jsArgs)\<rparr> # rest \<and>
            (\<not> isIframe p \<longrightarrow> rest = []) \<and>
            (\<forall>m \<in> set rest. Method m = ''Runtime.evaluate'' \<longrightarrow>
               SessionID_msg m = SessionID p \<and>
               (\<exists>cid. Params m = Some ((base env byValue js jsArgs)(''contextId'' \<mapsto> JNumber cid))))"
  proof (cases "isIframe p")
    case True
    with ev have "evalIframe env p (base env byValue js jsArgs) s = Some (r, p', s')"
      by (simp add: eval_def base_def)
    from evalIframe_calls[OF this] True show ?thesis by simp
  next
    case False
    with ev obtain c: "Call env p ''Runtime.evaluate'' (Some (base env byValue js jsArgs)) s = (r, s')"
      by (auto simp: eval_def base_def split: prod.splits)
    from Call_calls[OF c] False show ?thesis by simp
  qed
next
  show "\<forall>res. r = Inr res \<and> \<not> Exists (Get ''exceptionDetails'' res) \<and> byValue \<longrightarrow>
            EvalE env p byValue [] js jsArgs s = Some (Inr (Get ''result.value'' res), p', s')"
    using ev by (auto simp: EvalE_def)
next
  show "\<forall>res. r = Inr res \<and> \<not> Exists (Get ''exceptionDetails'' res) \<and> \<not> byValue \<longrightarrow>
            EvalE env p byValue [] js jsArgs s = Some (Inr res, p', s')"
    using ev by (auto simp: EvalE_def)
qed

theorem eval_request_witness:
  "(case EvalE (test_env [Inr number_answer] (Inr None)) page0 True [] ''() => 40 + 2'' [] state0 of
      None \<Rightarrow> False
    | Some (r, p', s') \<Rightarrow>
        r = Inr (Some (JNumber 42)) \<and>
        calls s' =
          [\<lparr>SessionID_msg = ''S1'', Method = ''Runtime.evaluate'',
            Params = Some [''expression'' \<mapsto> JString ''(() => 40 + 2).apply(this, [])'',
                           ''awaitPromise'' \<mapsto> JTrue,
                           ''returnByValue'' \<mapsto> JTrue]\<rparr>]) \<and>
   (case eval (test_env [Inr number_answer] (Inr None)) frame0 False ''() => 40 + 2'' [] state0 of
      None \<Rightarrow> False
    | Some (r, p', s') \<Rightarrow>
        r = Inr number_answer \<and>
        hd (calls s') =
          \<lparr>SessionID_msg = ''S1'', Method = ''Runtime.evaluate'',
            Params = Some [''expression'' \<mapsto> JString ''(() => 40 + 2).apply(this, [])'',
                           ''awaitPromise'' \<mapsto> JTrue,
                           ''returnByValue'' \<mapsto> JFalse,
                           ''contextId'' \<mapsto> JNumber 1]\<rparr>)"
proof -
  let ?env = "test_env [Inr number_answer] (Inr None)"
  let ?js = "''() => 40 + 2''"
  have c0: "calls state0 = []" "world state0 = 0" by (simp_all add: state0_def)
  have expr: "SprintFnApply ?env ?js [] = ''(() => 40 + 2).apply(this, [])''"
    by (simp add: test_env_def)
  \<comment> \<open>a root page, by value\<close>
  obtain s1 where ev: "eval ?env page0 True ?js [] state0 = Some (Inr number_answer, page0, s1)"
    by (simp add: eval_def isIframe_def page0_def Call_def test_env_def script_call_def state0_def)
  have noex: "\<not> Exists (Get ''exceptionDetails'' number_answer)"
    and val: "Get ''result.value'' number_answer = Some (JNumber 42)"
    by (simp_all add: Exists_def Get_def number_answer_def)
  note T = eval_request[OF ev]
  from T[THEN conjunct1] have t: "calls s1 =
      [\<lparr>SessionID_msg = ''S1'', Method = ''Runtime.evaluate'',
            Params = Some [''expression'' \<mapsto> JString ''(() => 40 + 2).apply(this, [])'',
                           ''awaitPromise'' \<mapsto> JTrue,
                           ''returnByValue'' \<mapsto> JTrue]\<rparr>]"
    by (auto simp: c0 expr isIframe_def page0_def JBool_def)
  from T[THEN conjunct2, THEN conjunct1] noex val
  have "EvalE ?env page0 True [] ?js [] state0 = Some (Inr (Some (JNumber 42)), page0, s1)"
    by simp
  with t have a: "(case EvalE ?env page0 True [] ?js [] state0 of
      None \<Rightarrow> False
    | Some (r, p', s') \<Rightarrow>
        r = Inr (Some (JNumber 42)) \<and>
        calls s' =
          [\<lparr>SessionID_msg = ''S1'', Method = ''Runtime.evaluate'',
            Params = Some [''expression'' \<mapsto> JString ''(() => 40 + 2).apply(this, [])'',
                           ''awaitPromise'' \<mapsto> JTrue,
                           ''returnByValue'' \<mapsto> JTrue]\<rparr>])"
    by simp
  \<comment> \<open>an iframe page, by reference\<close>
  let ?params = "[''expression'' \<mapsto> JString (SprintFnApply ?env ?js []),
                  ''awaitPromise'' \<mapsto> JTrue, ''returnByValue'' \<mapsto> JBool False]"
  obtain u1 where call: "Call ?env frame0 ''Runtime.evaluate''
        (Some (?params(''contextId'' \<mapsto> JNumber (ContextID frame0)))) state0 = (Inr number_answer, u1)"
    using Call_test_env_calls[of state0 "[Inr number_answer]" "Inr None" frame0 "''Runtime.evaluate''"] c0
    by fastforce
  have "evalIframe ?env frame0 ?params state0 = Some (Inr number_answer, frame0, u1)"
    using evalIframe_done[OF call] by simp
  then have evf: "eval ?env frame0 False ?js [] state0 = Some (Inr number_answer, frame0, u1)"
    by (simp add: eval_def isIframe_def frame0_def)
  from eval_request[OF evf, THEN conjunct1] have "hd (calls u1) =
          \<lparr>SessionID_msg = ''S1'', Method = ''Runtime.evaluate'',
            Params = Some [''expression'' \<mapsto> JString ''(() => 40 + 2).apply(this, [])'',
                           ''awaitPromise'' \<mapsto> JTrue,
                           ''returnByValue'' \<mapsto> JFalse,
                           ''contextId'' \<mapsto> JNumber 1]\<rparr>"
    by (auto simp: c0 expr isIframe_def frame0_def page0_def JBool_def)
  with evf have b: "(case eval ?env frame0 False ?js [] state0 of
      None \<Rightarrow> False
    | Some (r, p', s') \<Rightarrow>
        r = Inr number_answer \<and>
        hd (calls s') =
          \<lparr>SessionID_msg = ''S1'', Method = ''Runtime.evaluate'',
            Params = Some [''expression'' \<mapsto> JString ''(() => 40 + 2).apply(this, [])'',
                           ''awaitPromise'' \<mapsto> JTrue,
                           ''returnByValue'' \<mapsto> JFalse,
                           ''contextId'' \<mapsto> JNumber 1]\<rparr>)"
    by simp
  show ?thesis using a b by blast
qed

end
